theory Spec2Isabelle
  imports Main "HOL-Library.AList"
begin

section \<open>Python values and strings\<close>

text \<open>
  The orchestration core of \<^verbatim>\<open>Vulnsight101/backend/server.py\<close> handles probe
  results as untyped Python objects. They are modelled as JSON-like values; a dict is
  an association list in insertion order with string keys. Floats are not part of the
  model, and strings are ASCII strings (one \<open>char\<close> per code point).
\<close>

datatype pyval =
    PNone
  | PBool bool
  | PInt int
  | PStr string
  | PList "pyval list"
  | PDict "(string \<times> pyval) list"

type_synonym pydict = "(string \<times> pyval) list"

text \<open>
  Exceptions carry their message (\<^verbatim>\<open>str(e)\<close>). \<open>OtherException\<close> stands for every
  subclass of \<^verbatim>\<open>Exception\<close> that is neither a \<^verbatim>\<open>TypeError\<close> nor an
  \<^verbatim>\<open>AttributeError\<close>.
\<close>

datatype exn = TypeError string | AttributeError string | OtherException string

fun exn_message :: "exn \<Rightarrow> string" where
  "exn_message (TypeError m) = m"
| "exn_message (AttributeError m) = m"
| "exn_message (OtherException m) = m"

text \<open>\<^verbatim>\<open>d.get(k)\<close> is \<open>map_of d k\<close>; \<^verbatim>\<open>d.get(k, default)\<close>:\<close>

definition dict_get :: "pydict \<Rightarrow> string \<Rightarrow> pyval \<Rightarrow> pyval" where
  "dict_get d k dflt = (case map_of d k of Some v \<Rightarrow> v | None \<Rightarrow> dflt)"

text \<open>\<^verbatim>\<open>d.get(k)\<close> with the implicit default \<^verbatim>\<open>None\<close>.\<close>

definition dict_get_none :: "pydict \<Rightarrow> string \<Rightarrow> pyval" where
  "dict_get_none d k = dict_get d k PNone"

text \<open>Truthiness, as \<^verbatim>\<open>if x\<close> and \<^verbatim>\<open>x or y\<close> test it.\<close>

fun truthy :: "pyval \<Rightarrow> bool" where
  "truthy PNone = False"
| "truthy (PBool b) = b"
| "truthy (PInt i) = (i \<noteq> 0)"
| "truthy (PStr s) = (s \<noteq> [])"
| "truthy (PList xs) = (xs \<noteq> [])"
| "truthy (PDict kvs) = (kvs \<noteq> [])"

definition py_or :: "pyval \<Rightarrow> pyval \<Rightarrow> pyval" where
  "py_or a b = (if truthy a then a else b)"

subsection \<open>Characters and case\<close>

definition is_upper :: "char \<Rightarrow> bool" where
  "is_upper c = (65 \<le> (of_char c :: nat) \<and> (of_char c :: nat) \<le> 90)"

definition is_lower :: "char \<Rightarrow> bool" where
  "is_lower c = (97 \<le> (of_char c :: nat) \<and> (of_char c :: nat) \<le> 122)"

definition lower_char :: "char \<Rightarrow> char" where
  "lower_char c = (if is_upper c then char_of ((of_char c :: nat) + 32) else c)"

definition upper_char :: "char \<Rightarrow> char" where
  "upper_char c = (if is_lower c then char_of ((of_char c :: nat) - 32) else c)"

text \<open>\<^verbatim>\<open>s.lower()\<close>\<close>

definition py_lower :: "string \<Rightarrow> string" where
  "py_lower s = map lower_char s"

text \<open>
  \<^verbatim>\<open>s.title()\<close>: a cased character that follows an uncased one (or starts the
  string) is upper-cased, every other cased character is lower-cased. The flag is
  CPython's \<^verbatim>\<open>previous_is_cased\<close>.
\<close>

fun title_from :: "bool \<Rightarrow> string \<Rightarrow> string" where
  "title_from p [] = []"
| "title_from p (c # cs) =
     (if is_lower c then (if p then c else upper_char c) # title_from True cs
      else if is_upper c then (if p then lower_char c else c) # title_from True cs
      else c # title_from False cs)"

definition py_title :: "string \<Rightarrow> string" where
  "py_title s = title_from False s"

text \<open>\<^verbatim>\<open>s.replace("_", " ")\<close>\<close>

definition replace_underscores :: "string \<Rightarrow> string" where
  "replace_underscores s = map (\<lambda>c. if c = CHR ''_'' then CHR '' '' else c) s"

text \<open>\<^verbatim>\<open>needle in hay\<close> on strings: \<open>needle\<close> occurs as a contiguous run.\<close>

fun starts_with :: "string \<Rightarrow> string \<Rightarrow> bool" where
  "starts_with [] hay = True"
| "starts_with (n # ns) [] = False"
| "starts_with (n # ns) (h # hs) = (n = h \<and> starts_with ns hs)"

fun str_contains :: "string \<Rightarrow> string \<Rightarrow> bool" where
  "str_contains needle [] = (needle = [])"
| "str_contains needle (h # hs) = (starts_with needle (h # hs) \<or> str_contains needle hs)"

section \<open>Risk aggregation\<close>

text \<open>
  \<^verbatim>\<open>scan_url\<close>, the block under "Risk computation":
  \<^verbatim>\<open>
    try:
        high_count = sum(1 for r in normalized
                         if r.get("severity", "").lower() in ("critical", "high"))
        risk_score = min(100, high_count * 10)
        if high_count >= 3:   risk_level = "High"
        elif high_count == 0: risk_level = "Low"
        else:                 risk_level = "Medium"
    except Exception:
        risk_score = 0
        risk_level = "Unknown"
  \<close>
  Only \<^verbatim>\<open>str\<close> has a \<^verbatim>\<open>lower\<close> method among the modelled values; on any other
  value the attribute access raises \<^verbatim>\<open>AttributeError\<close>.
\<close>

fun type_name :: "pyval \<Rightarrow> string" where
  "type_name PNone = ''NoneType''"
| "type_name (PBool b) = ''bool''"
| "type_name (PInt i) = ''int''"
| "type_name (PStr s) = ''str''"
| "type_name (PList xs) = ''list''"
| "type_name (PDict kvs) = ''dict''"

definition no_attribute :: "pyval \<Rightarrow> string \<Rightarrow> exn" where
  "no_attribute v a =
     AttributeError ([CHR 0x27] @ type_name v @ [CHR 0x27] @ '' object has no attribute ''
                     @ [CHR 0x27] @ a @ [CHR 0x27])"

fun method_lower :: "pyval \<Rightarrow> exn + string" where
  "method_lower (PStr s) = Inr (py_lower s)"
| "method_lower v = Inl (no_attribute v ''lower'')"

definition counts_as_high :: "pydict \<Rightarrow> exn + bool" where
  "counts_as_high r =
     (case method_lower (dict_get r ''severity'' (PStr [])) of
        Inl e \<Rightarrow> Inl e
      | Inr s \<Rightarrow> Inr (s \<in> set [''critical'', ''high'']))"

fun high_count :: "pydict list \<Rightarrow> exn + int" where
  "high_count [] = Inr 0"
| "high_count (r # rs) =
     (case counts_as_high r of
        Inl e \<Rightarrow> Inl e
      | Inr b \<Rightarrow>
          (case high_count rs of
             Inl e \<Rightarrow> Inl e
           | Inr n \<Rightarrow> Inr ((if b then 1 else 0) + n)))"

definition risk_level_of :: "int \<Rightarrow> string" where
  "risk_level_of hc = (if hc \<ge> 3 then ''High'' else if hc = 0 then ''Low'' else ''Medium'')"

definition compute_risk :: "pydict list \<Rightarrow> int \<times> string" where
  "compute_risk normalized =
     (case high_count normalized of
        Inr hc \<Rightarrow> (min 100 (hc * 10), risk_level_of hc)
      | Inl e \<Rightarrow> (0, ''Unknown''))"

section \<open>Rendering values as text\<close>

text \<open>
  \<^verbatim>\<open>str(x)\<close> and \<^verbatim>\<open>repr(x)\<close> for the modelled values. A string is quoted with
  \<^verbatim>\<open>'\<close> unless it contains \<^verbatim>\<open>'\<close> and no \<^verbatim>\<open>"\<close>; the quote and the
  backslash are escaped, tab, newline and carriage return are written \<^verbatim>\<open>\t\<close>,
  \<^verbatim>\<open>\n\<close>, \<^verbatim>\<open>\r\<close>, and the other control characters \<^verbatim>\<open>\xhh\<close>.
\<close>

definition digit_char :: "nat \<Rightarrow> char" where
  "digit_char n = ''0123456789abcdef'' ! n"

function str_of_nat :: "nat \<Rightarrow> string" where
  "str_of_nat n = (if n < 10 then [digit_char n] else str_of_nat (n div 10) @ [digit_char (n mod 10)])"
  by pat_completeness auto
termination
  by (relation "measure id") auto

definition str_of_int :: "int \<Rightarrow> string" where
  "str_of_int i = (if i < 0 then CHR ''-'' # str_of_nat (nat (- i)) else str_of_nat (nat i))"

definition quote_for :: "string \<Rightarrow> char" where
  "quote_for s = (if CHR 0x27 \<in> set s \<and> CHR 0x22 \<notin> set s then CHR 0x22 else CHR 0x27)"

definition repr_char :: "char \<Rightarrow> char \<Rightarrow> string" where
  "repr_char q c =
     (if c = q \<or> c = CHR 0x5C then [CHR 0x5C, c]
      else if c = CHR 0x09 then [CHR 0x5C, CHR ''t'']
      else if c = CHR 0x0A then [CHR 0x5C, CHR ''n'']
      else if c = CHR 0x0D then [CHR 0x5C, CHR ''r'']
      else if (of_char c :: nat) < 32 \<or> (of_char c :: nat) = 127
        then [CHR 0x5C, CHR ''x'', digit_char ((of_char c :: nat) div 16),
              digit_char ((of_char c :: nat) mod 16)]
      else [c])"

definition repr_str :: "string \<Rightarrow> string" where
  "repr_str s = [quote_for s] @ concat (map (repr_char (quote_for s)) s) @ [quote_for s]"

text \<open>\<^verbatim>\<open>sep.join(parts)\<close>\<close>

fun join :: "string \<Rightarrow> string list \<Rightarrow> string" where
  "join sep [] = []"
| "join sep [x] = x"
| "join sep (x # y # ys) = x @ sep @ join sep (y # ys)"

fun py_repr :: "pyval \<Rightarrow> string"
  and repr_items :: "pyval list \<Rightarrow> string list"
  and repr_pairs :: "(string \<times> pyval) list \<Rightarrow> string list" where
  "py_repr PNone = ''None''"
| "py_repr (PBool b) = (if b then ''True'' else ''False'')"
| "py_repr (PInt i) = str_of_int i"
| "py_repr (PStr s) = repr_str s"
| "py_repr (PList xs) = ''['' @ join '', '' (repr_items xs) @ '']''"
| "py_repr (PDict kvs) = ''{'' @ join '', '' (repr_pairs kvs) @ ''}''"
| "repr_items [] = []"
| "repr_items (x # xs) = py_repr x # repr_items xs"
| "repr_pairs [] = []"
| "repr_pairs ((k, v) # kvs) = (repr_str k @ '': '' @ py_repr v) # repr_pairs kvs"

fun py_str :: "pyval \<Rightarrow> string" where
  "py_str (PStr s) = s"
| "py_str v = py_repr v"

section \<open>Blocked-response classifier\<close>

text \<open>
  \<^verbatim>\<open>classify_blocked_response(tool_result)\<close>. The unused local \<^verbatim>\<open>headers\<close> is left out.
  \<^verbatim>\<open>status in (403, 429)\<close> compares with \<^verbatim>\<open>==\<close>, under which a bool equals 0 or 1.
\<close>

fun py_eq_int :: "pyval \<Rightarrow> int \<Rightarrow> bool" where
  "py_eq_int (PInt i) n = (i = n)"
| "py_eq_int (PBool b) n = ((if b then 1 else 0) = n)"
| "py_eq_int v n = False"

definition KEYWORDS :: "string list" where
  "KEYWORDS = [''captcha'', ''verify you are human'', ''cloudflare'', ''bot'', ''challenge'',
               ''access denied'']"

text \<open>The \<^verbatim>\<open>for keyword in [...]\<close> loop, appending to \<^verbatim>\<open>blocked_reasons\<close>.\<close>

fun scan_keywords :: "string \<Rightarrow> string list \<Rightarrow> string list \<Rightarrow> string list" where
  "scan_keywords lower_text [] blocked_reasons = blocked_reasons"
| "scan_keywords lower_text (keyword # rest) blocked_reasons =
     scan_keywords lower_text rest
       (if str_contains keyword lower_text then blocked_reasons @ [keyword] else blocked_reasons)"

definition blocked_payload :: "pyval \<Rightarrow> string list \<Rightarrow> pyval" where
  "blocked_payload meta blocked_reasons = PDict
     [(''error'', PStr ''Target likely blocked scan / WAF protection triggered''),
      (''severity'', PStr ''Unknown''),
      (''description'',
         PStr ''Scan could not retrieve headers/content due to bot protection/firewall.''),
      (''fix'', PStr ''Manual verification required; optionally use browser-based scan mode.''),
      (''references'', PList []),
      (''_meta'', meta),
      (''blocked_reasons'', PList (map PStr blocked_reasons))]"

text \<open>The status and the text excerpt the classifier reads from the result.\<close>

definition status_field :: "pydict \<Rightarrow> pyval" where
  "status_field d = py_or (dict_get_none d ''status_code'') (dict_get_none d ''response_status_code'')"

definition snippet_field :: "pydict \<Rightarrow> pyval" where
  "snippet_field d = py_or (dict_get d ''text_snippet'' (PStr [])) (dict_get d ''body_snippet'' (PStr []))"

text \<open>
  The list \<^verbatim>\<open>blocked_reasons\<close> when the two \<^verbatim>\<open>if\<close> statements are through;
  \<^verbatim>\<open>text_snippet.lower()\<close> raises on a value that is not a string.
\<close>

definition trigger_reasons :: "pydict \<Rightarrow> exn + string list" where
  "trigger_reasons d =
     (let status = status_field d;
          text_snippet = snippet_field d;
          blocked_reasons =
            (if py_eq_int status 403 \<or> py_eq_int status 429 then [''HTTP '' @ py_str status] else [])
      in if truthy text_snippet
         then (case method_lower text_snippet of
                 Inl e \<Rightarrow> Inl e
               | Inr lower_text \<Rightarrow> Inr (scan_keywords lower_text KEYWORDS blocked_reasons))
         else Inr blocked_reasons)"

definition classify_dict :: "pydict \<Rightarrow> exn + pyval" where
  "classify_dict d =
     (case trigger_reasons d of
        Inl e \<Rightarrow> Inl e
      | Inr blocked_reasons \<Rightarrow>
          if blocked_reasons \<noteq> []
          then Inr (blocked_payload (dict_get d ''_meta'' (PDict [])) blocked_reasons)
          else Inr (PDict d))"

fun classify_blocked_response :: "pyval \<Rightarrow> exn + pyval" where
  "classify_blocked_response (PDict d) = classify_dict d"
| "classify_blocked_response tool_result = Inr tool_result"

section \<open>Result normalizer\<close>

text \<open>
  \<^verbatim>\<open>normalize_results(raw_results)\<close>: one finding per item of the dict, in its order.
  \<open>normalize_one\<close> is the loop body.
\<close>

definition derived_name :: "string \<Rightarrow> string" where
  "derived_name vuln = py_title (replace_underscores vuln)"

definition default_references :: "string \<Rightarrow> pyval" where
  "default_references name =
     PList [PStr (''OWASP '' @ name @ '' Prevention''), PStr ''CWE Reference'',
            PStr ''NIST Guidelines'']"

definition status_of :: "pyval \<Rightarrow> string" where
  "status_of data = (if \<not> str_contains ''error'' (py_lower (py_str data)) then ''ok'' else ''error'')"

definition finding :: "string \<Rightarrow> pyval \<Rightarrow> pyval \<Rightarrow> pyval \<Rightarrow> pyval \<Rightarrow> pyval \<Rightarrow> pyval \<Rightarrow> pydict" where
  "finding vuln data name severity description fix references =
     [(''id'', PStr vuln),
      (''status'', PStr (status_of data)),
      (''name'', name),
      (''severity'', severity),
      (''description'', description),
      (''fix'', fix),
      (''references'', references),
      (''details'', data)]"

definition normalize_one :: "string \<Rightarrow> pyval \<Rightarrow> pydict" where
  "normalize_one vuln data =
     (let name = derived_name vuln;
          severity = PStr ''Unknown'';
          description = PStr ''No description provided.'';
          fix = PStr ''No fix recommendation available.'';
          references = default_references name
      in case data of
           PDict d \<Rightarrow>
             (case map_of d ''error'' of
                Some err \<Rightarrow>
                  finding vuln data (PStr name)
                    (dict_get d ''severity'' (PStr ''Unknown''))
                    (dict_get d ''description'' err)
                    (dict_get d ''fix'' (PStr ''Check backend service''))
                    references
              | None \<Rightarrow>
                  finding vuln data
                    (dict_get d ''name'' (PStr name))
                    (dict_get d ''severity'' severity)
                    (dict_get d ''description'' description)
                    (dict_get d ''fix'' fix)
                    (dict_get d ''references'' references))
         | _ \<Rightarrow> finding vuln data (PStr name) severity description fix references)"

definition normalize_results :: "pydict \<Rightarrow> pydict list" where
  "normalize_results raw_results = map (\<lambda>(vuln, data). normalize_one vuln data) raw_results"

section \<open>Probe invoker\<close>

text \<open>
  A probe capability is code outside the core. One call either is rejected by the
  callable's signature, in which case Python raises \<^verbatim>\<open>TypeError\<close> before the body
  runs, or runs the body (the probe's outbound action), which returns a value or raises.
\<close>

datatype call_args =
    Positional string
  | WithTimeout string int
  | Keyword string

datatype call_outcome =
    Rejected string
  | Ran "exn + pyval"

type_synonym capability = "call_args \<Rightarrow> call_outcome"

text \<open>What the caller of a capability sees.\<close>

fun observed :: "call_outcome \<Rightarrow> exn + pyval" where
  "observed (Rejected m) = Inl (TypeError m)"
| "observed (Ran r) = r"

text \<open>
  \<^verbatim>\<open>_call_tool_callable(callable_obj, url)\<close>, returning what the Python function returns
  or raises, together with the calls it made, in order.
  \<^verbatim>\<open>
    try:
        return callable_obj(url)
    except TypeError:
        try:
            return callable_obj(url, timeout=10)
        except TypeError:
            return callable_obj(target=url)
  \<close>
\<close>

definition call_tool_callable :: "capability \<Rightarrow> string \<Rightarrow> (exn + pyval) \<times> call_args list" where
  "call_tool_callable callable_obj url =
     (case observed (callable_obj (Positional url)) of
        Inl (TypeError m1) \<Rightarrow>
          (case observed (callable_obj (WithTimeout url 10)) of
             Inl (TypeError m2) \<Rightarrow>
               (observed (callable_obj (Keyword url)),
                [Positional url, WithTimeout url 10, Keyword url])
           | r \<Rightarrow> (r, [Positional url, WithTimeout url 10]))
      | r \<Rightarrow> (r, [Positional url]))"

text \<open>How often the probe's body ran during a sequence of calls.\<close>

definition body_runs :: "capability \<Rightarrow> call_args list \<Rightarrow> nat" where
  "body_runs callable_obj calls =
     length (filter (\<lambda>a. case callable_obj a of Ran r \<Rightarrow> True | Rejected m \<Rightarrow> False) calls)"

section \<open>Probe registry and dispatcher\<close>

definition TOOLS :: "(string \<times> string) list" where
  "TOOLS =
     [(''clickjacking'', ''Tools.ClickJacking_Tester''),
      (''cors'', ''Tools.CORS_detection''),
      (''directory_listing'', ''Tools.Directory_Listing_Check''),
      (''http_headers'', ''Tools.HTTP_Security_Header_Analysis''),
      (''insecure_cookies'', ''Tools.Missing_Cookies''),
      (''open_redirect'', ''Tools.OpenRedirect''),
      (''outdated_software'', ''Tools.outdates_software''),
      (''info_disclosure'', ''Tools.Sensitive_Info_Disclosure''),
      (''ssl_tls'', ''Tools.SSL_TLS_checker''),
      (''xss'', ''Tools.XSS''),
      (''sql_injection'', ''Tools.SQL_injection''),
      (''path_traversal'', ''Tools.pathtraversal'')]"

text \<open>
  An imported module: its attributes, and the module object's own call behaviour when
  \<^verbatim>\<open>callable(module)\<close> holds. \<^verbatim>\<open>importlib.import_module\<close> is a parameter of the
  model: it returns a module or raises.
\<close>

datatype attr = Callable capability | NotCallable

datatype py_module = Module (attr_of: "string \<Rightarrow> attr option") (module_call: "capability option")

type_synonym importer = "string \<Rightarrow> exn + py_module"

text \<open>The \<^verbatim>\<open>for name in ("run","scan","main","check")\<close> loop with its \<^verbatim>\<open>break\<close>.\<close>

fun first_callable :: "py_module \<Rightarrow> string list \<Rightarrow> capability option" where
  "first_callable m [] = None"
| "first_callable m (name # names) =
     (case attr_of m name of
        Some (Callable c) \<Rightarrow> Some c
      | _ \<Rightarrow> first_callable m names)"

definition error_result :: "string \<Rightarrow> pyval" where
  "error_result msg = PDict [(''error'', PStr msg)]"

definition run_tool_async :: "importer \<Rightarrow> string \<Rightarrow> string \<Rightarrow> (exn + string \<times> pyval) \<times> call_args list" where
  "run_tool_async import_module vuln url =
     (case map_of TOOLS vuln of
        None \<Rightarrow> (Inr (vuln, error_result (''Tool '' @ [CHR 0x27] @ vuln @ [CHR 0x27] @ '' not found'')), [])
      | Some module_path \<Rightarrow>
          (case import_module module_path of
             Inl e \<Rightarrow> (Inr (vuln, error_result (''ImportError: '' @ exn_message e)), [])
           | Inr m \<Rightarrow>
               (case (case first_callable m [''run'', ''scan'', ''main'', ''check''] of
                        Some c \<Rightarrow> Some c
                      | None \<Rightarrow> module_call m) of
                  None \<Rightarrow> (Inr (vuln, error_result (''No callable found in '' @ module_path)), [])
                | Some callable_obj \<Rightarrow>
                    (case call_tool_callable callable_obj url of
                       (Inl e, calls) \<Rightarrow> (Inl e, calls)
                     | (Inr result, calls) \<Rightarrow>
                         (case classify_blocked_response result of
                            Inl e \<Rightarrow> (Inl e, calls)
                          | Inr result' \<Rightarrow> (Inr (vuln, result'), calls))))))"

text \<open>
  \<^verbatim>\<open>asyncio.gather(*tasks, return_exceptions=False)\<close>: the results in task order when
  no task raises; otherwise the exception of the task that raised first in time, which
  the parameter \<open>first_raised\<close> chooses among the raised ones.
\<close>

definition gather :: "(exn list \<Rightarrow> exn) \<Rightarrow> (exn + 'a) list \<Rightarrow> exn + 'a list" where
  "gather first_raised outcomes =
     (case [e. Inl e \<leftarrow> outcomes] of
        [] \<Rightarrow> Inr [v. Inr v \<leftarrow> outcomes]
      | es \<Rightarrow> Inl (first_raised es))"

text \<open>
  A dict comprehension \<^verbatim>\<open>{k: v for k, v in pairs}\<close>: a key keeps the position of its
  first occurrence and the value of its last.
\<close>

definition dict_of_pairs :: "(string \<times> pyval) list \<Rightarrow> pydict" where
  "dict_of_pairs pairs = foldl (\<lambda>d (k, v). AList.update k v d) [] pairs"

definition run_all_tools ::
    "importer \<Rightarrow> (exn list \<Rightarrow> exn) \<Rightarrow> string \<Rightarrow> string list \<Rightarrow> exn + pydict" where
  "run_all_tools import_module first_raised url selected_vulns =
     (case gather first_raised (map (\<lambda>v. fst (run_tool_async import_module v url)) selected_vulns) of
        Inl e \<Rightarrow> Inl e
      | Inr completed \<Rightarrow> Inr (dict_of_pairs completed))"

section \<open>Scan coordinator\<close>

text \<open>
  The part of \<^verbatim>\<open>scan_url\<close> between the validation of the URL and the response:
  probe selection, fan-out with the coordinator's \<^verbatim>\<open>except Exception\<close>, normalization
  and risk computation. Session handling, URLScan, the LLM summary and persistence do
  not write \<^verbatim>\<open>raw_results\<close> and are left out.
\<close>

definition selected_vulns :: "string list \<Rightarrow> string list" where
  "selected_vulns vulnerabilities = (if vulnerabilities = [] then map fst TOOLS else vulnerabilities)"

definition raw_results_of ::
    "importer \<Rightarrow> (exn list \<Rightarrow> exn) \<Rightarrow> string \<Rightarrow> string list \<Rightarrow> pydict" where
  "raw_results_of import_module first_raised url selected =
     (case run_all_tools import_module first_raised url selected of
        Inr raw_results \<Rightarrow> raw_results
      | Inl e \<Rightarrow>
          dict_of_pairs (map (\<lambda>v. (v, error_result (''Tool run failed: '' @ exn_message e))) selected))"

record scan_response =
  results :: "pydict list"
  risk_score :: int
  risk_level :: string

definition scan_url ::
    "importer \<Rightarrow> (exn list \<Rightarrow> exn) \<Rightarrow> string \<Rightarrow> string list \<Rightarrow> scan_response" where
  "scan_url import_module first_raised url vulnerabilities =
     (let normalized =
            normalize_results
              (raw_results_of import_module first_raised url (selected_vulns vulnerabilities))
      in \<lparr>results = normalized,
          risk_score = fst (compute_risk normalized),
          risk_level = snd (compute_risk normalized)\<rparr>)"

section \<open>The aggregate as the specification words it\<close>

text \<open>
  The specification's \<open>highCount\<close>: the number of findings whose severity,
  case-insensitively, is "critical" or "high"; a missing severity and one that is not a
  string are not counted. \<open>spec_aggregate\<close> is the score and the level it derives
  from that count.
\<close>

definition spec_is_high :: "pydict \<Rightarrow> bool" where
  "spec_is_high r =
     (case map_of r ''severity'' of
        Some (PStr s) \<Rightarrow> py_lower s = ''critical'' \<or> py_lower s = ''high''
      | _ \<Rightarrow> False)"

definition spec_high_count :: "pydict list \<Rightarrow> int" where
  "spec_high_count findings = int (length (filter spec_is_high findings))"

definition spec_aggregate :: "pydict list \<Rightarrow> int \<times> string" where
  "spec_aggregate findings =
     (min 100 (spec_high_count findings * 10),
      if spec_high_count findings \<ge> 3 then ''High''
      else if spec_high_count findings = 0 then ''Low'' else ''Medium'')"

text \<open>The severity the aggregation reads from a finding is a string (or is missing).\<close>

definition has_text_severity :: "pydict \<Rightarrow> bool" where
  "has_text_severity r = (case dict_get r ''severity'' (PStr []) of PStr s \<Rightarrow> True | _ \<Rightarrow> False)"

section \<open>The trigger reasons as the specification words them\<close>

text \<open>
  The excerpt is text when it is a string; a falsy value of another type is never read
  as text by the classifier and counts as an empty excerpt.
\<close>

definition is_text_or_empty :: "pyval \<Rightarrow> bool" where
  "is_text_or_empty v = (case v of PStr t \<Rightarrow> True | _ \<Rightarrow> \<not> truthy v)"

definition text_of :: "pyval \<Rightarrow> string" where
  "text_of v = (case v of PStr t \<Rightarrow> t | _ \<Rightarrow> [])"

text \<open>
  Every reason that fires, each on its own: the status reason for 403 and for 429, then
  every keyword of the fixed set that occurs in the lower-cased excerpt, in the order
  "captcha", "verify you are human", "cloudflare", "bot", "challenge", "access denied".
\<close>

definition spec_reasons :: "pydict \<Rightarrow> string list" where
  "spec_reasons d =
     (if status_field d = PInt 403 then [''HTTP 403'']
      else if status_field d = PInt 429 then [''HTTP 429''] else [])
     @ filter (\<lambda>keyword. str_contains keyword (py_lower (text_of (snippet_field d))))
         [''captcha'', ''verify you are human'', ''cloudflare'', ''bot'', ''challenge'',
          ''access denied'']"

section \<open>Notions used to state the properties of the invoker and the dispatcher\<close>

definition raises_TypeError :: "exn + pyval \<Rightarrow> bool" where
  "raises_TypeError r = (case r of Inl (TypeError m) \<Rightarrow> True | _ \<Rightarrow> False)"

text \<open>
  The body of the capability raises no \<^verbatim>\<open>TypeError\<close> of its own: on the three calls
  the invoker can make, a \<^verbatim>\<open>TypeError\<close> means that the call was rejected.
\<close>

definition TypeError_only_on_reject :: "capability \<Rightarrow> string \<Rightarrow> bool" where
  "TypeError_only_on_reject c url =
     (\<forall>a \<in> set [Positional url, WithTimeout url 10, Keyword url].
        case c a of Ran r \<Rightarrow> \<not> raises_TypeError r | Rejected m \<Rightarrow> True)"

definition accepts :: "capability \<Rightarrow> call_args \<Rightarrow> bool" where
  "accepts c a = (case c a of Ran r \<Rightarrow> True | Rejected m \<Rightarrow> False)"

text \<open>The conventions in priority order, up to and including the first accepted one.\<close>

fun up_to_first_accepted :: "capability \<Rightarrow> call_args list \<Rightarrow> call_args list" where
  "up_to_first_accepted c [] = []"
| "up_to_first_accepted c (a # as) = (if accepts c a then [a] else a # up_to_first_accepted c as)"

text \<open>
  The findings of a report that carry a given id, and a capability that raises on each of
  the three calls the invoker can make.
\<close>

definition findings_for :: "pydict list \<Rightarrow> string \<Rightarrow> pydict list" where
  "findings_for findings v = filter (\<lambda>f. map_of f ''id'' = Some (PStr v)) findings"

definition always_raises :: "capability \<Rightarrow> string \<Rightarrow> bool" where
  "always_raises c url =
     list_all (\<lambda>a. case observed (c a) of Inl e \<Rightarrow> True | Inr v \<Rightarrow> False)
       [Positional url, WithTimeout url 10, Keyword url]"

text \<open>
  The exceptions the tasks of a fan-out raise, in task order, and the result of the task
  of one probe when it returns.
\<close>

definition errors_of :: "importer \<Rightarrow> string \<Rightarrow> string list \<Rightarrow> exn list" where
  "errors_of imp url sel = [e. Inl e \<leftarrow> map (\<lambda>v. fst (run_tool_async imp v url)) sel]"

definition value_of :: "importer \<Rightarrow> string \<Rightarrow> string \<Rightarrow> pyval" where
  "value_of imp url v = (case fst (run_tool_async imp v url) of Inr (k, r) \<Rightarrow> r | Inl e \<Rightarrow> PNone)"

text \<open>
  The raw result the coordinator holds for a requested probe: the result of its task when
  no task of the fan-out raised, the failure payload of the coordinator's
  \<^verbatim>\<open>except Exception\<close> otherwise.
\<close>

definition raw_result_for :: "importer \<Rightarrow> (exn list \<Rightarrow> exn) \<Rightarrow> string \<Rightarrow> string list \<Rightarrow> string \<Rightarrow> pyval" where
  "raw_result_for imp pick url sel v =
     (if errors_of imp url sel = [] then value_of imp url v
      else error_result (''Tool run failed: '' @ exn_message (pick (errors_of imp url sel))))"

section \<open>An example environment\<close>

text \<open>
  Two probe modules for the concrete scans below: \<^verbatim>\<open>Tools.XSS\<close> has a function
  \<^verbatim>\<open>run(url, timeout=10)\<close> that reports a finding of severity High, and
  \<^verbatim>\<open>Tools.CORS_detection\<close> has a \<^verbatim>\<open>run\<close> that raises on every call. No other
  module can be imported.
\<close>

definition failing_probe :: capability where
  "failing_probe a = Ran (Inl (OtherException ''connection reset''))"

definition high_probe :: capability where
  "high_probe a =
     (case a of
        Keyword u \<Rightarrow> Rejected ''run() got an unexpected keyword argument''
      | _ \<Rightarrow> Ran (Inr (PDict [(''name'', PStr ''XSS''), (''severity'', PStr ''High'')])))"

definition example_importer :: importer where
  "example_importer path =
     (if path = ''Tools.XSS''
        then Inr (Module (\<lambda>n. if n = ''run'' then Some (Callable high_probe) else None) None)
      else if path = ''Tools.CORS_detection''
        then Inr (Module (\<lambda>n. if n = ''run'' then Some (Callable failing_probe) else None) None)
      else Inl (OtherException ''No module''))"


section \<open>Properties of the risk aggregation\<close>

lemma py_lower_Nil: "py_lower [] = []"
  by (simp add: py_lower_def)

lemma counts_as_high_text:
  "has_text_severity r \<Longrightarrow> counts_as_high r = Inr (spec_is_high r)"
  by (auto simp: has_text_severity_def counts_as_high_def spec_is_high_def dict_get_def py_lower_Nil
           split: option.splits pyval.splits)

lemma counts_as_high_not_text:
  "\<not> has_text_severity r \<Longrightarrow> \<exists>e. counts_as_high r = Inl e"
  by (auto simp: has_text_severity_def counts_as_high_def split: pyval.splits)

lemma high_count_text:
  "list_all has_text_severity fs \<Longrightarrow> high_count fs = Inr (spec_high_count fs)"
  by (induction fs) (auto simp: spec_high_count_def counts_as_high_text)

lemma high_count_not_text:
  "\<not> list_all has_text_severity fs \<Longrightarrow> \<exists>e. high_count fs = Inl e"
proof (induction fs)
  case Nil
  then show ?case by simp
next
  case (Cons r rs)
  show ?case
  proof (cases "has_text_severity r")
    case True
    with Cons show ?thesis by (auto simp: counts_as_high_text)
  next
    case False
    then obtain e where "counts_as_high r = Inl e" using counts_as_high_not_text by blast
    then show ?thesis by simp
  qed
qed

lemma high_count_cong:
  "map (\<lambda>r. dict_get r ''severity'' (PStr [])) fs = map (\<lambda>r. dict_get r ''severity'' (PStr [])) gs
   \<Longrightarrow> high_count fs = high_count gs"
proof (induction fs arbitrary: gs)
  case Nil
  then show ?case by simp
next
  case (Cons f fs)
  then obtain g gs' where gs: "gs = g # gs'" by (cases gs) auto
  from Cons.prems gs have hd: "counts_as_high f = counts_as_high g"
    by (simp add: counts_as_high_def)
  from Cons.prems gs
  have tl: "map (\<lambda>r. dict_get r ''severity'' (PStr [])) fs = map (\<lambda>r. dict_get r ''severity'' (PStr [])) gs'"
    by simp
  have "high_count fs = high_count gs'" by (rule Cons.IH [OF tl])
  with hd gs show ?case by (simp split: sum.splits)
qed

text \<open>
  C3, as the code has it. On findings whose severities are strings, a missing severity
  counting as the empty string, the risk computation of \<^verbatim>\<open>scan_url\<close>
  yields score \<open>min 100 (highCount * 10)\<close> and level High for \<open>highCount \<ge> 3\<close>, Low for
  \<open>highCount = 0\<close> and Medium otherwise, where \<open>highCount\<close> is the number of findings
  whose severity is "critical" or "high" up to case.
\<close>

theorem risk_aggregation_formula:
  assumes "list_all has_text_severity findings"
  shows "compute_risk findings =
           (min 100 (spec_high_count findings * 10),
            if spec_high_count findings \<ge> 3 then ''High''
            else if spec_high_count findings = 0 then ''Low'' else ''Medium'')"
  using high_count_text [OF assms]
  by (simp add: compute_risk_def risk_level_of_def)

text \<open>
  The two examples of the specification: severities High, High, Critical, Low give score
  30 and level High; no High or Critical severity gives score 0 and level Low.
\<close>

theorem risk_aggregation_formula_witness:
  "list_all has_text_severity
     [[(''severity'', PStr ''High'')], [(''severity'', PStr ''High'')],
      [(''severity'', PStr ''Critical'')], [(''severity'', PStr ''Low'')]]
   \<and> compute_risk
     [[(''severity'', PStr ''High'')], [(''severity'', PStr ''High'')],
      [(''severity'', PStr ''Critical'')], [(''severity'', PStr ''Low'')]] = (30, ''High'')
   \<and> list_all has_text_severity [[(''severity'', PStr ''Low'')], [(''severity'', PStr ''Medium'')]]
   \<and> compute_risk [[(''severity'', PStr ''Low'')], [(''severity'', PStr ''Medium'')]] = (0, ''Low'')"
proof -
  let ?a = "[[(''severity'', PStr ''High'')], [(''severity'', PStr ''High'')],
             [(''severity'', PStr ''Critical'')], [(''severity'', PStr ''Low'')]]"
  let ?b = "[[(''severity'', PStr ''Low'')], [(''severity'', PStr ''Medium'')]]"
  have ha: "list_all has_text_severity ?a" by (simp add: has_text_severity_def dict_get_def)
  have hb: "list_all has_text_severity ?b" by (simp add: has_text_severity_def dict_get_def)
  have ca: "spec_high_count ?a = 3" by code_simp
  have cb: "spec_high_count ?b = 0" by code_simp
  from risk_aggregation_formula [OF ha] ca have "compute_risk ?a = (30, ''High'')" by simp
  moreover from risk_aggregation_formula [OF hb] cb have "compute_risk ?b = (0, ''Low'')" by simp
  ultimately show ?thesis using ha hb by simp
qed

text \<open>
  C3 as stated fails on a list of normalized findings in which a severity is not a
  string: one probe reports High and another reports the number 3 as its severity. The
  formula gives score 10 and level Medium; the code returns score 0 and level "Unknown".
\<close>

theorem nonstring_severity_counterexample:
  "compute_risk (normalize_results
      [(''xss'', PDict [(''severity'', PStr ''High'')]),
       (''cors'', PDict [(''severity'', PInt 3)])]) = (0, ''Unknown'')
   \<and> (min 100 (spec_high_count (normalize_results
      [(''xss'', PDict [(''severity'', PStr ''High'')]),
       (''cors'', PDict [(''severity'', PInt 3)])]) * 10),
      if spec_high_count (normalize_results
      [(''xss'', PDict [(''severity'', PStr ''High'')]),
       (''cors'', PDict [(''severity'', PInt 3)])]) \<ge> 3 then ''High''
      else if spec_high_count (normalize_results
      [(''xss'', PDict [(''severity'', PStr ''High'')]),
       (''cors'', PDict [(''severity'', PInt 3)])]) = 0 then ''Low'' else ''Medium'')
     = (10, ''Medium'')"
  by code_simp

text \<open>
  C7, as the code has it. The risk computation always returns a result. A finding whose
  severity is missing, or is a string other than "critical" and "high" up to case, is not
  counted, and the others are counted as usual. As soon as one finding carries a severity
  that is not a string, the \<^verbatim>\<open>except Exception\<close> branch discards the count: the score
  is 0 and the level is "Unknown".
\<close>

theorem risk_aggregation_total:
  "compute_risk findings =
     (if list_all has_text_severity findings then spec_aggregate findings else (0, ''Unknown''))"
proof (cases "list_all has_text_severity findings")
  case True
  then show ?thesis
    using high_count_text [OF True]
    by (simp add: compute_risk_def risk_level_of_def spec_aggregate_def)
next
  case False
  then obtain e where "high_count findings = Inl e" using high_count_not_text by blast
  with False show ?thesis by (simp add: compute_risk_def)
qed

theorem risk_aggregation_total_witness:
  "compute_risk [[(''id'', PStr ''xss'')], [(''severity'', PStr ''HIGH'')]] = (10, ''Medium'')
   \<and> compute_risk [[(''severity'', PInt 3)], [(''severity'', PStr ''HIGH'')]] = (0, ''Unknown'')"
proof -
  let ?a = "[[(''id'', PStr ''xss'')], [(''severity'', PStr ''HIGH'')]]"
  let ?b = "[[(''severity'', PInt 3)], [(''severity'', PStr ''HIGH'')]]"
  have ha: "list_all has_text_severity ?a" by (simp add: has_text_severity_def dict_get_def)
  have hb: "\<not> list_all has_text_severity ?b" by (simp add: has_text_severity_def dict_get_def)
  have ca: "spec_aggregate ?a = (10, ''Medium'')" by code_simp
  from risk_aggregation_total [of ?a] ha ca have "compute_risk ?a = (10, ''Medium'')" by simp
  moreover have "compute_risk ?b = (0, ''Unknown'')"
    by (simp only: risk_aggregation_total [of ?b] hb if_False)
  ultimately show ?thesis by simp
qed

text \<open>
  C7 as stated fails: three probes report High, High and Critical and a fourth reports
  the severity \<^verbatim>\<open>None\<close>. The specification counts the three (score 30, level High); the
  code returns score 0 and level "Unknown".
\<close>

theorem unparseable_severity_counterexample:
  "compute_risk (normalize_results
      [(''xss'', PDict [(''severity'', PStr ''High'')]),
       (''cors'', PDict [(''severity'', PStr ''High'')]),
       (''ssl_tls'', PDict [(''severity'', PStr ''Critical'')]),
       (''clickjacking'', PDict [(''severity'', PNone)])]) = (0, ''Unknown'')
   \<and> spec_aggregate (normalize_results
      [(''xss'', PDict [(''severity'', PStr ''High'')]),
       (''cors'', PDict [(''severity'', PStr ''High'')]),
       (''ssl_tls'', PDict [(''severity'', PStr ''Critical'')]),
       (''clickjacking'', PDict [(''severity'', PNone)])]) = (30, ''High'')"
  by code_simp

text \<open>
  C8. The score and the level depend on the findings only through their severities: two
  lists of findings that agree on the severities get the same result.
\<close>

theorem risk_depends_only_on_severities:
  assumes "map (\<lambda>r. dict_get r ''severity'' (PStr [])) fs = map (\<lambda>r. dict_get r ''severity'' (PStr [])) gs"
  shows "compute_risk fs = compute_risk gs"
  using high_count_cong [OF assms] by (simp add: compute_risk_def)

theorem risk_depends_only_on_severities_witness:
  "compute_risk [[(''id'', PStr ''xss''), (''severity'', PStr ''High'')], [(''severity'', PInt 1)]]
   = compute_risk [[(''severity'', PStr ''High''), (''fix'', PNone)], [(''severity'', PInt 1), (''id'', PStr ''b'')]]"
  using risk_depends_only_on_severities
    [of "[[(''id'', PStr ''xss''), (''severity'', PStr ''High'')], [(''severity'', PInt 1)]]"
        "[[(''severity'', PStr ''High''), (''fix'', PNone)], [(''severity'', PInt 1), (''id'', PStr ''b'')]]"]
  by (simp add: dict_get_def)

section \<open>Properties of the blocked-response classifier\<close>

text \<open>\<open>str_contains\<close> is the substring test.\<close>

lemma starts_with_iff: "starts_with n h \<longleftrightarrow> (\<exists>s. h = n @ s)"
  by (induction n h rule: starts_with.induct) auto

lemma str_contains_iff: "str_contains n h \<longleftrightarrow> (\<exists>p s. h = p @ n @ s)"
proof (induction h)
  case Nil
  then show ?case by auto
next
  case (Cons c h)
  show ?case
  proof
    assume "str_contains n (c # h)"
    then consider "starts_with n (c # h)" | "str_contains n h" by auto
    then show "\<exists>p s. c # h = p @ n @ s"
    proof cases
      case 1
      then obtain s where "c # h = n @ s" using starts_with_iff by blast
      then have "c # h = [] @ n @ s" by simp
      then show ?thesis by blast
    next
      case 2
      with Cons obtain p s where "h = p @ n @ s" by blast
      then have "c # h = (c # p) @ n @ s" by simp
      then show ?thesis by blast
    qed
  next
    assume "\<exists>p s. c # h = p @ n @ s"
    then obtain p s where ps: "c # h = p @ n @ s" by blast
    show "str_contains n (c # h)"
    proof (cases p)
      case Nil
      with ps have "starts_with n (c # h)" using starts_with_iff by auto
      then show ?thesis by simp
    next
      case (Cons a p')
      with ps have "h = p' @ n @ s" by simp
      then have "str_contains n h" using Cons.IH by blast
      then show ?thesis by simp
    qed
  qed
qed

lemma scan_keywords_filter:
  "scan_keywords t ks acc = acc @ filter (\<lambda>k. str_contains k t) ks"
  by (induction ks arbitrary: acc) auto

lemma py_eq_int_403: "py_eq_int v 403 \<longleftrightarrow> v = PInt 403"
  by (cases v) auto

lemma py_eq_int_429: "py_eq_int v 429 \<longleftrightarrow> v = PInt 429"
  by (cases v) auto

lemma str_403: "str_of_int 403 = ''403''"
  by code_simp

lemma str_429: "str_of_int 429 = ''429''"
  by code_simp

lemma status_reasons_eq:
  "(if py_eq_int v 403 \<or> py_eq_int v 429 then [''HTTP '' @ py_str v] else [])
   = (if v = PInt 403 then [''HTTP 403''] else if v = PInt 429 then [''HTTP 429''] else [])"
  by (auto simp: py_eq_int_403 py_eq_int_429 str_403 str_429)

lemma trigger_reasons_text:
  assumes "is_text_or_empty (snippet_field d)"
  shows "trigger_reasons d = Inr (spec_reasons d)"
proof (cases "truthy (snippet_field d)")
  case True
  with assms obtain t where t: "snippet_field d = PStr t"
    by (auto simp: is_text_or_empty_def split: pyval.splits)
  show ?thesis
    unfolding trigger_reasons_def spec_reasons_def Let_def status_reasons_eq
    using True by (simp add: t text_of_def scan_keywords_filter KEYWORDS_def)
next
  case False
  with assms have "text_of (snippet_field d) = []"
    by (auto simp: is_text_or_empty_def text_of_def split: pyval.splits)
  then show ?thesis
    unfolding trigger_reasons_def spec_reasons_def Let_def status_reasons_eq
    using False by (simp add: py_lower_def)
qed

lemma trigger_reasons_not_text:
  assumes "\<not> is_text_or_empty (snippet_field d)"
  shows "trigger_reasons d = Inl (no_attribute (snippet_field d) ''lower'')"
  using assms
  by (cases "snippet_field d") (auto simp: is_text_or_empty_def trigger_reasons_def Let_def)

text \<open>
  C4, as the code has it. On a dict whose excerpt is text, the classifier records every
  reason that fires: "HTTP 403" or "HTTP 429" for such a status, and each of the six
  keywords that occurs in the lower-cased excerpt. When a reason fired the result is the
  standard blocked payload, with the original \<^verbatim>\<open>_meta\<close> and the full list of
  reasons; otherwise, and on every value that is not a dict, the result is returned
  unchanged. On a dict whose excerpt is a truthy value that is not a string the classifier
  returns nothing: \<^verbatim>\<open>text_snippet.lower()\<close> raises \<^verbatim>\<open>AttributeError\<close>.
\<close>

theorem classify_records_every_reason:
  "(is_text_or_empty (snippet_field d) \<longrightarrow>
      classify_blocked_response (PDict d) =
        Inr (if spec_reasons d = [] then PDict d
             else PDict
               [(''error'', PStr ''Target likely blocked scan / WAF protection triggered''),
                (''severity'', PStr ''Unknown''),
                (''description'',
                   PStr ''Scan could not retrieve headers/content due to bot protection/firewall.''),
                (''fix'', PStr ''Manual verification required; optionally use browser-based scan mode.''),
                (''references'', PList []),
                (''_meta'', dict_get d ''_meta'' (PDict [])),
                (''blocked_reasons'', PList (map PStr (spec_reasons d)))]))
   \<and> (\<not> is_text_or_empty (snippet_field d) \<longrightarrow>
      classify_blocked_response (PDict d) = Inl (no_attribute (snippet_field d) ''lower''))
   \<and> ((\<forall>d'. v \<noteq> PDict d') \<longrightarrow> classify_blocked_response v = Inr v)"
proof (intro conjI impI)
  assume "is_text_or_empty (snippet_field d)"
  then have "trigger_reasons d = Inr (spec_reasons d)" by (rule trigger_reasons_text)
  then show "classify_blocked_response (PDict d) =
        Inr (if spec_reasons d = [] then PDict d
             else PDict
               [(''error'', PStr ''Target likely blocked scan / WAF protection triggered''),
                (''severity'', PStr ''Unknown''),
                (''description'',
                   PStr ''Scan could not retrieve headers/content due to bot protection/firewall.''),
                (''fix'', PStr ''Manual verification required; optionally use browser-based scan mode.''),
                (''references'', PList []),
                (''_meta'', dict_get d ''_meta'' (PDict [])),
                (''blocked_reasons'', PList (map PStr (spec_reasons d)))])"
    by (simp add: classify_dict_def blocked_payload_def)
next
  assume "\<not> is_text_or_empty (snippet_field d)"
  then have "trigger_reasons d = Inl (no_attribute (snippet_field d) ''lower'')"
    by (rule trigger_reasons_not_text)
  then show "classify_blocked_response (PDict d) = Inl (no_attribute (snippet_field d) ''lower'')"
    by (simp add: classify_dict_def)
next
  assume "\<forall>d'. v \<noteq> PDict d'"
  then show "classify_blocked_response v = Inr v" by (cases v) auto
qed


text \<open>
  The example of the specification: status 403 and a body that contains "captcha" give
  exactly the reasons "HTTP 403" and "captcha". A string result passes through.
\<close>

theorem classify_records_every_reason_witness:
  "is_text_or_empty (snippet_field
      [(''status_code'', PInt 403), (''text_snippet'', PStr ''Please solve the CAPTCHA to continue'')])
   \<and> classify_blocked_response (PDict
      [(''status_code'', PInt 403), (''text_snippet'', PStr ''Please solve the CAPTCHA to continue'')])
     = Inr (PDict
         [(''error'', PStr ''Target likely blocked scan / WAF protection triggered''),
          (''severity'', PStr ''Unknown''),
          (''description'',
             PStr ''Scan could not retrieve headers/content due to bot protection/firewall.''),
          (''fix'', PStr ''Manual verification required; optionally use browser-based scan mode.''),
          (''references'', PList []),
          (''_meta'', PDict []),
          (''blocked_reasons'', PList [PStr ''HTTP 403'', PStr ''captcha''])])
   \<and> classify_blocked_response (PStr ''timed out'') = Inr (PStr ''timed out'')"
proof -
  let ?d = "[(''status_code'', PInt 403), (''text_snippet'', PStr ''Please solve the CAPTCHA to continue'')]"
  have h: "is_text_or_empty (snippet_field ?d)"
    by (simp add: is_text_or_empty_def snippet_field_def py_or_def dict_get_def)
  have r: "spec_reasons ?d = [''HTTP 403'', ''captcha'']" by code_simp
  have m: "dict_get ?d ''_meta'' (PDict []) = PDict []" by (simp add: dict_get_def)
  have n: "\<forall>d'. PStr ''timed out'' \<noteq> PDict d'" by simp
  from classify_records_every_reason [of ?d "PStr ''timed out''"] h r m n
  show ?thesis by simp
qed

text \<open>
  C4 as stated fails: a dict result with status 403 whose excerpt is a list of strings is
  neither replaced by the blocked payload with the reason "HTTP 403" nor returned
  unchanged; the classifier raises \<^verbatim>\<open>AttributeError\<close>.
\<close>

theorem classify_nontext_excerpt_counterexample:
  "classify_blocked_response
     (PDict [(''status_code'', PInt 403), (''text_snippet'', PList [PStr ''Access denied''])])
   = Inl (AttributeError ([CHR 0x27] @ ''list'' @ [CHR 0x27] @ '' object has no attribute ''
                          @ [CHR 0x27] @ ''lower'' @ [CHR 0x27]))"
  by code_simp

section \<open>Properties of the result normalizer\<close>

text \<open>
  A dict that has the key \<^verbatim>\<open>error\<close> renders as text that contains "error", so its
  finding gets the status "error".
\<close>

lemma py_lower_append: "py_lower (a @ b) = py_lower a @ py_lower b"
  by (simp add: py_lower_def)

lemma str_contains_append: "str_contains n h \<Longrightarrow> str_contains n (p @ h @ s)"
proof -
  assume "str_contains n h"
  then obtain p' s' where "h = p' @ n @ s'" using str_contains_iff by blast
  then have "p @ h @ s = (p @ p') @ n @ (s' @ s)" by simp
  then show ?thesis using str_contains_iff by blast
qed

lemma str_contains_appendR: "str_contains n h \<Longrightarrow> str_contains n (h @ s)"
  using str_contains_append [of n h "[]" s] by simp

lemma str_contains_appendL: "str_contains n h \<Longrightarrow> str_contains n (p @ h)"
  using str_contains_append [of n h p "[]"] by simp

lemma join_contains:
  "x \<in> set xs \<Longrightarrow> str_contains n (py_lower x) \<Longrightarrow> str_contains n (py_lower (join sep xs))"
proof (induction sep xs rule: join.induct)
  case (1 sep)
  then show ?case by simp
next
  case (2 sep y)
  then show ?case by simp
next
  case (3 sep y z zs)
  show ?case
  proof (cases "x = y")
    case True
    with 3 show ?thesis by (simp add: py_lower_append str_contains_appendR)
  next
    case False
    with 3 have "str_contains n (py_lower (join sep (z # zs)))" by simp
    then show ?thesis
      using str_contains_appendL [of n "py_lower (join sep (z # zs))" "py_lower y @ py_lower sep"]
      by (simp add: py_lower_append)
  qed
qed

lemma repr_error_key: "py_lower (repr_str ''error'') = [CHR 0x27] @ ''error'' @ [CHR 0x27]"
  by code_simp

lemma error_in_key: "str_contains ''error'' (py_lower (repr_str ''error'' @ rest))"
proof -
  have "py_lower (repr_str ''error'' @ rest) = [CHR 0x27] @ ''error'' @ ([CHR 0x27] @ py_lower rest)"
    by (simp add: py_lower_append repr_error_key)
  then show ?thesis using str_contains_iff by blast
qed

lemma repr_pairs_error:
  "map_of d ''error'' = Some v \<Longrightarrow>
   \<exists>x \<in> set (repr_pairs d). str_contains ''error'' (py_lower x)"
proof (induction d)
  case Nil
  then show ?case by simp
next
  case (Cons kv d)
  obtain k w where kv: "kv = (k, w)" by (cases kv)
  show ?case
  proof (cases "k = ''error''")
    case True
    have "str_contains ''error'' (py_lower (repr_str ''error'' @ '': '' @ py_repr w))"
      by (rule error_in_key)
    with True kv show ?thesis by simp
  next
    case False
    with Cons kv show ?thesis by auto
  qed
qed

lemma status_of_failure:
  assumes "map_of d ''error'' = Some v"
  shows "status_of (PDict d) = ''error''"
proof -
  from repr_pairs_error [OF assms] obtain x where
    "x \<in> set (repr_pairs d)" "str_contains ''error'' (py_lower x)" by blast
  then have "str_contains ''error'' (py_lower (join '', '' (repr_pairs d)))"
    by (rule join_contains)
  then have "str_contains ''error'' (py_lower ''{'' @ py_lower (join '', '' (repr_pairs d)) @ py_lower ''}'')"
    by (rule str_contains_append)
  then have "str_contains ''error'' (py_lower (py_str (PDict d)))"
    by (simp add: py_lower_def)
  then show ?thesis by (simp add: status_of_def del: py_str.simps)
qed

lemma field_simps_finding:
  "map_of (finding vuln data name severity description fix references) ''id'' = Some (PStr vuln)"
  "map_of (finding vuln data name severity description fix references) ''status'' = Some (PStr (status_of data))"
  "map_of (finding vuln data name severity description fix references) ''name'' = Some name"
  "map_of (finding vuln data name severity description fix references) ''severity'' = Some severity"
  "map_of (finding vuln data name severity description fix references) ''description'' = Some description"
  "map_of (finding vuln data name severity description fix references) ''fix'' = Some fix"
  "map_of (finding vuln data name severity description fix references) ''references'' = Some references"
  "map_of (finding vuln data name severity description fix references) ''details'' = Some data"
  by (simp_all add: finding_def)

lemma normalize_one_failure:
  "map_of d ''error'' = Some err \<Longrightarrow>
   normalize_one vuln (PDict d) =
     finding vuln (PDict d) (PStr (derived_name vuln))
       (dict_get d ''severity'' (PStr ''Unknown''))
       (dict_get d ''description'' err)
       (dict_get d ''fix'' (PStr ''Check backend service''))
       (default_references (derived_name vuln))"
  by (simp add: normalize_one_def Let_def)

lemma normalize_one_success:
  "map_of d ''error'' = None \<Longrightarrow>
   normalize_one vuln (PDict d) =
     finding vuln (PDict d)
       (dict_get d ''name'' (PStr (derived_name vuln)))
       (dict_get d ''severity'' (PStr ''Unknown''))
       (dict_get d ''description'' (PStr ''No description provided.''))
       (dict_get d ''fix'' (PStr ''No fix recommendation available.''))
       (dict_get d ''references'' (default_references (derived_name vuln)))"
  by (simp add: normalize_one_def Let_def)

lemma normalize_one_other:
  "\<forall>d. data \<noteq> PDict d \<Longrightarrow>
   normalize_one vuln data =
     finding vuln data (PStr (derived_name vuln)) (PStr ''Unknown'')
       (PStr ''No description provided.'') (PStr ''No fix recommendation available.'')
       (default_references (derived_name vuln))"
  by (cases data) (simp_all add: normalize_one_def Let_def)

text \<open>
  C5, as the code has it. The name derived from the id (underscores to spaces, title
  case) and the placeholders "Unknown", "No description provided.", "No fix recommendation
  available." and the three generic references are the defaults of a dict result without
  the key \<^verbatim>\<open>error\<close>, each overridden by the field the result supplies, and the
  values of every result that is not a dict. For a dict with the key \<^verbatim>\<open>error\<close> the
  name and the references are never taken from the result, the description defaults to
  the error text and the fix to "Check backend service"; severity, description and fix
  are overridden when supplied.
\<close>

theorem normalize_defaults_and_overrides:
  "(map_of d ''error'' = None \<longrightarrow>
      map_of (normalize_one vuln (PDict d)) ''name''
        = Some (dict_get d ''name'' (PStr (py_title (replace_underscores vuln))))
    \<and> map_of (normalize_one vuln (PDict d)) ''severity''
        = Some (dict_get d ''severity'' (PStr ''Unknown''))
    \<and> map_of (normalize_one vuln (PDict d)) ''description''
        = Some (dict_get d ''description'' (PStr ''No description provided.''))
    \<and> map_of (normalize_one vuln (PDict d)) ''fix''
        = Some (dict_get d ''fix'' (PStr ''No fix recommendation available.''))
    \<and> map_of (normalize_one vuln (PDict d)) ''references''
        = Some (dict_get d ''references''
            (PList [PStr (''OWASP '' @ py_title (replace_underscores vuln) @ '' Prevention''),
                    PStr ''CWE Reference'', PStr ''NIST Guidelines''])))
   \<and> (map_of d ''error'' = Some err \<longrightarrow>
      map_of (normalize_one vuln (PDict d)) ''name''
        = Some (PStr (py_title (replace_underscores vuln)))
    \<and> map_of (normalize_one vuln (PDict d)) ''severity''
        = Some (dict_get d ''severity'' (PStr ''Unknown''))
    \<and> map_of (normalize_one vuln (PDict d)) ''description''
        = Some (dict_get d ''description'' err)
    \<and> map_of (normalize_one vuln (PDict d)) ''fix''
        = Some (dict_get d ''fix'' (PStr ''Check backend service''))
    \<and> map_of (normalize_one vuln (PDict d)) ''references''
        = Some (PList [PStr (''OWASP '' @ py_title (replace_underscores vuln) @ '' Prevention''),
                       PStr ''CWE Reference'', PStr ''NIST Guidelines'']))
   \<and> ((\<forall>d'. data \<noteq> PDict d') \<longrightarrow>
      map_of (normalize_one vuln data) ''name''
        = Some (PStr (py_title (replace_underscores vuln)))
    \<and> map_of (normalize_one vuln data) ''severity'' = Some (PStr ''Unknown'')
    \<and> map_of (normalize_one vuln data) ''description'' = Some (PStr ''No description provided.'')
    \<and> map_of (normalize_one vuln data) ''fix'' = Some (PStr ''No fix recommendation available.'')
    \<and> map_of (normalize_one vuln data) ''references''
        = Some (PList [PStr (''OWASP '' @ py_title (replace_underscores vuln) @ '' Prevention''),
                       PStr ''CWE Reference'', PStr ''NIST Guidelines'']))"
proof (intro conjI impI)
  assume h: "map_of d ''error'' = None"
  note n = normalize_one_success [OF h, of vuln]
  show "map_of (normalize_one vuln (PDict d)) ''name''
        = Some (dict_get d ''name'' (PStr (py_title (replace_underscores vuln))))"
    by (simp add: n field_simps_finding derived_name_def)
  show "map_of (normalize_one vuln (PDict d)) ''severity''
        = Some (dict_get d ''severity'' (PStr ''Unknown''))"
    by (simp add: n field_simps_finding)
  show "map_of (normalize_one vuln (PDict d)) ''description''
        = Some (dict_get d ''description'' (PStr ''No description provided.''))"
    by (simp add: n field_simps_finding)
  show "map_of (normalize_one vuln (PDict d)) ''fix''
        = Some (dict_get d ''fix'' (PStr ''No fix recommendation available.''))"
    by (simp add: n field_simps_finding)
  show "map_of (normalize_one vuln (PDict d)) ''references''
        = Some (dict_get d ''references''
            (PList [PStr (''OWASP '' @ py_title (replace_underscores vuln) @ '' Prevention''),
                    PStr ''CWE Reference'', PStr ''NIST Guidelines'']))"
    by (simp add: n field_simps_finding derived_name_def default_references_def)
next
  assume h: "map_of d ''error'' = Some err"
  note n = normalize_one_failure [OF h, of vuln]
  show "map_of (normalize_one vuln (PDict d)) ''name''
        = Some (PStr (py_title (replace_underscores vuln)))"
    by (simp add: n field_simps_finding derived_name_def)
  show "map_of (normalize_one vuln (PDict d)) ''severity''
        = Some (dict_get d ''severity'' (PStr ''Unknown''))"
    by (simp add: n field_simps_finding)
  show "map_of (normalize_one vuln (PDict d)) ''description''
        = Some (dict_get d ''description'' err)"
    by (simp add: n field_simps_finding)
  show "map_of (normalize_one vuln (PDict d)) ''fix''
        = Some (dict_get d ''fix'' (PStr ''Check backend service''))"
    by (simp add: n field_simps_finding)
  show "map_of (normalize_one vuln (PDict d)) ''references''
        = Some (PList [PStr (''OWASP '' @ py_title (replace_underscores vuln) @ '' Prevention''),
                       PStr ''CWE Reference'', PStr ''NIST Guidelines''])"
    by (simp add: n field_simps_finding derived_name_def default_references_def)
next
  assume h: "\<forall>d'. data \<noteq> PDict d'"
  note n = normalize_one_other [OF h, of vuln]
  show "map_of (normalize_one vuln data) ''name''
        = Some (PStr (py_title (replace_underscores vuln)))"
    by (simp add: n field_simps_finding derived_name_def)
  show "map_of (normalize_one vuln data) ''severity'' = Some (PStr ''Unknown'')"
    by (simp add: n field_simps_finding)
  show "map_of (normalize_one vuln data) ''description'' = Some (PStr ''No description provided.'')"
    by (simp add: n field_simps_finding)
  show "map_of (normalize_one vuln data) ''fix'' = Some (PStr ''No fix recommendation available.'')"
    by (simp add: n field_simps_finding)
  show "map_of (normalize_one vuln data) ''references''
        = Some (PList [PStr (''OWASP '' @ py_title (replace_underscores vuln) @ '' Prevention''),
                       PStr ''CWE Reference'', PStr ''NIST Guidelines''])"
    by (simp add: n field_simps_finding derived_name_def default_references_def)
qed

lemma title_sql: "py_title (replace_underscores ''sql_injection'') = ''Sql Injection''"
  by code_simp

theorem normalize_defaults_and_overrides_witness:
  "map_of (normalize_one ''sql_injection''
      (PDict [(''severity'', PStr ''High''), (''fix'', PStr ''Use parameterized queries.'')])) ''name''
     = Some (PStr ''Sql Injection'')
   \<and> map_of (normalize_one ''sql_injection''
      (PDict [(''severity'', PStr ''High''), (''fix'', PStr ''Use parameterized queries.'')])) ''severity''
     = Some (PStr ''High'')
   \<and> map_of (normalize_one ''sql_injection''
      (PDict [(''severity'', PStr ''High''), (''fix'', PStr ''Use parameterized queries.'')])) ''references''
     = Some (PList [PStr ''OWASP Sql Injection Prevention'', PStr ''CWE Reference'', PStr ''NIST Guidelines''])
   \<and> map_of (normalize_one ''sql_injection''
      (PDict [(''error'', PStr ''Request failed''), (''details'', PStr ''timed out'')])) ''description''
     = Some (PStr ''Request failed'')
   \<and> map_of (normalize_one ''sql_injection'' (PStr ''done'')) ''fix''
     = Some (PStr ''No fix recommendation available.'')"
proof -
  let ?ok = "[(''severity'', PStr ''High''), (''fix'', PStr ''Use parameterized queries.'')]"
  let ?bad = "[(''error'', PStr ''Request failed''), (''details'', PStr ''timed out'')]"
  have a: "map_of ?ok ''error'' = None" by simp
  have b: "map_of ?bad ''error'' = Some (PStr ''Request failed'')" by simp
  have c: "\<forall>d'. PStr ''done'' \<noteq> PDict d'" by simp
  note t = title_sql
  from normalize_defaults_and_overrides
         [where d = ?ok and vuln = "''sql_injection''" and data = "PStr ''done''" and err = PNone] a c
  have 1: "map_of (normalize_one ''sql_injection'' (PDict ?ok)) ''name'' = Some (PStr ''Sql Injection'')"
    and 2: "map_of (normalize_one ''sql_injection'' (PDict ?ok)) ''severity'' = Some (PStr ''High'')"
    and 3: "map_of (normalize_one ''sql_injection'' (PDict ?ok)) ''references''
       = Some (PList [PStr ''OWASP Sql Injection Prevention'', PStr ''CWE Reference'', PStr ''NIST Guidelines''])"
    and 5: "map_of (normalize_one ''sql_injection'' (PStr ''done'')) ''fix''
       = Some (PStr ''No fix recommendation available.'')"
    by (simp_all add: dict_get_def t)
  from normalize_defaults_and_overrides
         [where d = ?bad and vuln = "''sql_injection''" and data = PNone and err = "PStr ''Request failed''"] b
  have 4: "map_of (normalize_one ''sql_injection'' (PDict ?bad)) ''description'' = Some (PStr ''Request failed'')"
    by (simp add: dict_get_def)
  from 1 2 3 4 5 show ?thesis by simp
qed

text \<open>
  C5 as stated fails on failure payloads: the payload of a failed request gets the error
  text as description and "Check backend service" as fix, not the placeholders; the
  blocked payload supplies an empty reference list and a failure payload may supply a
  name, and neither reaches the finding.
\<close>

theorem normalize_failure_counterexample:
  "map_of (normalize_one ''cors''
      (PDict [(''error'', PStr ''Request failed''), (''details'', PStr ''timed out'')])) ''description''
     = Some (PStr ''Request failed'')
   \<and> map_of (normalize_one ''cors''
      (PDict [(''error'', PStr ''Request failed''), (''details'', PStr ''timed out'')])) ''fix''
     = Some (PStr ''Check backend service'')
   \<and> map_of (normalize_one ''cors'' (blocked_payload (PDict []) [''HTTP 403''])) ''references''
     = Some (PList [PStr ''OWASP Cors Prevention'', PStr ''CWE Reference'', PStr ''NIST Guidelines''])
   \<and> map_of (normalize_one ''cors''
      (PDict [(''error'', PStr ''Exception''), (''name'', PStr ''CORS Misconfiguration'')])) ''name''
     = Some (PStr ''Cors'')"
  by code_simp

text \<open>
  C6, as the code has it. A result the classifier replaces with the blocked payload is
  normalized into a finding with status "error" and severity "Unknown", with the fixed
  description and fix of the blocked payload and the blocked payload, reasons included,
  as details. The status "error" is the one every failure payload, a dict with the key
  \<^verbatim>\<open>error\<close>, gets: by its status the blocked finding is not distinct from the
  finding of a probe failure.
\<close>

theorem blocked_finding_has_error_status:
  assumes "trigger_reasons d = Inr reasons" and "reasons \<noteq> []"
  shows "classify_blocked_response (PDict d) = Inr (blocked_payload (dict_get d ''_meta'' (PDict [])) reasons)
    \<and> map_of (normalize_one vuln (blocked_payload (dict_get d ''_meta'' (PDict [])) reasons)) ''status''
        = Some (PStr ''error'')
    \<and> map_of (normalize_one vuln (blocked_payload (dict_get d ''_meta'' (PDict [])) reasons)) ''severity''
        = Some (PStr ''Unknown'')
    \<and> map_of (normalize_one vuln (blocked_payload (dict_get d ''_meta'' (PDict [])) reasons)) ''description''
        = Some (PStr ''Scan could not retrieve headers/content due to bot protection/firewall.'')
    \<and> map_of (normalize_one vuln (blocked_payload (dict_get d ''_meta'' (PDict [])) reasons)) ''fix''
        = Some (PStr ''Manual verification required; optionally use browser-based scan mode.'')
    \<and> map_of (normalize_one vuln (blocked_payload (dict_get d ''_meta'' (PDict [])) reasons)) ''details''
        = Some (PDict
           [(''error'', PStr ''Target likely blocked scan / WAF protection triggered''),
            (''severity'', PStr ''Unknown''),
            (''description'',
               PStr ''Scan could not retrieve headers/content due to bot protection/firewall.''),
            (''fix'', PStr ''Manual verification required; optionally use browser-based scan mode.''),
            (''references'', PList []),
            (''_meta'', dict_get d ''_meta'' (PDict [])),
            (''blocked_reasons'', PList (map PStr reasons))])
    \<and> (map_of failure ''error'' = Some err \<longrightarrow>
          map_of (normalize_one other (PDict failure)) ''status'' = Some (PStr ''error''))"
proof -
  let ?m = "dict_get d ''_meta'' (PDict [])"
  obtain b where b: "blocked_payload ?m reasons = PDict b"
    and e: "map_of b ''error'' = Some (PStr ''Target likely blocked scan / WAF protection triggered'')"
    and sv: "dict_get b ''severity'' (PStr ''Unknown'') = PStr ''Unknown''"
    and ds: "dict_get b ''description'' (PStr ''Target likely blocked scan / WAF protection triggered'')
               = PStr ''Scan could not retrieve headers/content due to bot protection/firewall.''"
    and fx: "dict_get b ''fix'' (PStr ''Check backend service'')
               = PStr ''Manual verification required; optionally use browser-based scan mode.''"
    by (simp add: blocked_payload_def dict_get_def)
  have c: "classify_blocked_response (PDict d) = Inr (blocked_payload ?m reasons)"
    using assms by (simp add: classify_dict_def)
  have st: "status_of (PDict b) = ''error''" using e by (rule status_of_failure)
  have blocked: "classify_blocked_response (PDict d) = Inr (blocked_payload ?m reasons)
    \<and> map_of (normalize_one vuln (blocked_payload ?m reasons)) ''status'' = Some (PStr ''error'')
    \<and> map_of (normalize_one vuln (blocked_payload ?m reasons)) ''severity'' = Some (PStr ''Unknown'')
    \<and> map_of (normalize_one vuln (blocked_payload ?m reasons)) ''description''
        = Some (PStr ''Scan could not retrieve headers/content due to bot protection/firewall.'')
    \<and> map_of (normalize_one vuln (blocked_payload ?m reasons)) ''fix''
        = Some (PStr ''Manual verification required; optionally use browser-based scan mode.'')
    \<and> map_of (normalize_one vuln (blocked_payload ?m reasons)) ''details''
        = Some (PDict
           [(''error'', PStr ''Target likely blocked scan / WAF protection triggered''),
            (''severity'', PStr ''Unknown''),
            (''description'',
               PStr ''Scan could not retrieve headers/content due to bot protection/firewall.''),
            (''fix'', PStr ''Manual verification required; optionally use browser-based scan mode.''),
            (''references'', PList []),
            (''_meta'', ?m),
            (''blocked_reasons'', PList (map PStr reasons))])"
    unfolding b normalize_one_failure [OF e] field_simps_finding
    using c st sv ds fx b by (simp add: blocked_payload_def)
  have failed: "map_of failure ''error'' = Some err \<longrightarrow>
          map_of (normalize_one other (PDict failure)) ''status'' = Some (PStr ''error'')"
  proof
    assume h: "map_of failure ''error'' = Some err"
    show "map_of (normalize_one other (PDict failure)) ''status'' = Some (PStr ''error'')"
      by (simp add: normalize_one_failure [OF h] field_simps_finding status_of_failure [OF h])
  qed
  from blocked failed show ?thesis by (simp only: simp_thms)
qed

theorem blocked_finding_has_error_status_witness:
  "trigger_reasons [(''name'', PStr ''XSS''), (''severity'', PStr ''Low''), (''status_code'', PInt 429)]
     = Inr [''HTTP 429'']
   \<and> map_of (normalize_one ''xss'' (blocked_payload (PDict []) [''HTTP 429''])) ''status''
       = Some (PStr ''error'')"
proof -
  let ?d = "[(''name'', PStr ''XSS''), (''severity'', PStr ''Low''), (''status_code'', PInt 429)]"
  have t: "trigger_reasons ?d = Inr [''HTTP 429'']" by code_simp
  have n: "[''HTTP 429''] \<noteq> []" by simp
  have m: "dict_get ?d ''_meta'' (PDict []) = PDict []" by (simp add: dict_get_def)
  from blocked_finding_has_error_status [OF t n, where vuln = "''xss''"] t m show ?thesis by simp
qed

text \<open>
  C6 as stated fails: a probe result with status 403 is replaced by the blocked payload,
  and its finding has the status "error", as the finding of a failed request has.
\<close>

theorem blocked_finding_counterexample:
  "classify_blocked_response
     (PDict [(''name'', PStr ''XSS''), (''severity'', PStr ''Low''), (''status_code'', PInt 403),
             (''text_snippet'', PStr ''Forbidden'')])
     = Inr (blocked_payload (PDict []) [''HTTP 403''])
   \<and> map_of (normalize_one ''xss'' (blocked_payload (PDict []) [''HTTP 403''])) ''status''
       = Some (PStr ''error'')
   \<and> map_of (normalize_one ''xss'' (PDict [(''error'', PStr ''Request failed'')])) ''status''
       = Some (PStr ''error'')"
  by code_simp

section \<open>Properties of the probe invoker\<close>

lemma observed_cases:
  "TypeError_only_on_reject c url \<Longrightarrow> a \<in> set [Positional url, WithTimeout url 10, Keyword url] \<Longrightarrow>
   raises_TypeError (observed (c a)) \<longleftrightarrow> \<not> accepts c a"
  by (cases "c a") (auto simp: TypeError_only_on_reject_def accepts_def raises_TypeError_def)

lemma call_tool_callable_unfold:
  "call_tool_callable c url =
    (if raises_TypeError (observed (c (Positional url)))
     then if raises_TypeError (observed (c (WithTimeout url 10)))
          then (observed (c (Keyword url)), [Positional url, WithTimeout url 10, Keyword url])
          else (observed (c (WithTimeout url 10)), [Positional url, WithTimeout url 10])
     else (observed (c (Positional url)), [Positional url]))"
  by (auto simp: call_tool_callable_def raises_TypeError_def split: sum.splits exn.splits)

text \<open>
  C9, as the code has it. For a capability whose body raises no \<^verbatim>\<open>TypeError\<close> of its
  own, the invoker tries target-only, target with timeout and target by name in this
  order and stops at the first convention the capability accepts: every earlier call was
  rejected, the result is that of the last call, and the body of the probe ran at most
  once.
\<close>

theorem invoke_first_accepted_convention:
  assumes "TypeError_only_on_reject c url"
  shows "snd (call_tool_callable c url)
           = up_to_first_accepted c [Positional url, WithTimeout url 10, Keyword url]
       \<and> fst (call_tool_callable c url) = observed (c (last (snd (call_tool_callable c url))))
       \<and> body_runs c (snd (call_tool_callable c url)) \<le> 1
       \<and> (\<forall>a \<in> set (butlast (snd (call_tool_callable c url))). \<not> accepts c a)"
proof -
  have 1: "raises_TypeError (observed (c (Positional url))) \<longleftrightarrow> \<not> accepts c (Positional url)"
    using observed_cases [OF assms] by simp
  have 2: "raises_TypeError (observed (c (WithTimeout url 10))) \<longleftrightarrow> \<not> accepts c (WithTimeout url 10)"
    using observed_cases [OF assms] by simp
  show ?thesis
    unfolding call_tool_callable_unfold 1 2
    by (auto simp: body_runs_def accepts_def split: call_outcome.splits)
qed


theorem invoke_first_accepted_convention_witness:
  "TypeError_only_on_reject
      (\<lambda>a. case a of WithTimeout u t \<Rightarrow> Ran (Inr (PDict [(''severity'', PStr ''Low'')]))
                   | _ \<Rightarrow> Rejected ''wrong arguments'') ''http://t.example''
   \<and> call_tool_callable
      (\<lambda>a. case a of WithTimeout u t \<Rightarrow> Ran (Inr (PDict [(''severity'', PStr ''Low'')]))
                   | _ \<Rightarrow> Rejected ''wrong arguments'') ''http://t.example''
     = (Inr (PDict [(''severity'', PStr ''Low'')]),
        [Positional ''http://t.example'', WithTimeout ''http://t.example'' 10])"
proof -
  let ?c = "\<lambda>a. case a of WithTimeout u t \<Rightarrow> Ran (Inr (PDict [(''severity'', PStr ''Low'')]))
                       | _ \<Rightarrow> Rejected ''wrong arguments''"
  have h: "TypeError_only_on_reject ?c ''http://t.example''"
    by (simp add: TypeError_only_on_reject_def raises_TypeError_def)
  have u: "up_to_first_accepted ?c
             [Positional ''http://t.example'', WithTimeout ''http://t.example'' 10, Keyword ''http://t.example'']
           = [Positional ''http://t.example'', WithTimeout ''http://t.example'' 10]"
    by (simp add: accepts_def)
  from invoke_first_accepted_convention [OF h]
  have "snd (call_tool_callable ?c ''http://t.example'')
          = [Positional ''http://t.example'', WithTimeout ''http://t.example'' 10]"
    and "fst (call_tool_callable ?c ''http://t.example'')
          = observed (?c (last (snd (call_tool_callable ?c ''http://t.example''))))"
    by (simp_all only: u)
  then have "call_tool_callable ?c ''http://t.example''
     = (Inr (PDict [(''severity'', PStr ''Low'')]),
        [Positional ''http://t.example'', WithTimeout ''http://t.example'' 10])"
    by (simp add: prod_eq_iff)
  with h show ?thesis by simp
qed

text \<open>
  C9 as stated fails: a probe with the signature \<^verbatim>\<open>run(url, timeout=10)\<close> whose body
  raises \<^verbatim>\<open>TypeError\<close> accepts the first convention, and still the invoker calls it
  again with the timeout and then by name: the body runs twice in one invocation.
\<close>

theorem invoke_body_TypeError_counterexample:
  "call_tool_callable
     (\<lambda>a. case a of Keyword u \<Rightarrow> Rejected ''run() got an unexpected keyword argument''
                  | _ \<Rightarrow> Ran (Inl (TypeError ''unsupported operand type(s)''))) ''http://t.example''
     = (Inl (TypeError ''run() got an unexpected keyword argument''),
        [Positional ''http://t.example'', WithTimeout ''http://t.example'' 10, Keyword ''http://t.example''])
   \<and> body_runs
     (\<lambda>a. case a of Keyword u \<Rightarrow> Rejected ''run() got an unexpected keyword argument''
                  | _ \<Rightarrow> Ran (Inl (TypeError ''unsupported operand type(s)'')))
     [Positional ''http://t.example'', WithTimeout ''http://t.example'' 10, Keyword ''http://t.example''] = 2"
  by (simp add: call_tool_callable_def body_runs_def)

section \<open>Properties of the dispatcher and the report\<close>

lemma foldl_update_keys:
  "distinct (map fst acc) \<Longrightarrow>
   distinct (map fst (foldl (\<lambda>d (k, v). AList.update k v d) acc ps))
   \<and> set (map fst (foldl (\<lambda>d (k, v). AList.update k v d) acc ps)) = set (map fst acc) \<union> set (map fst ps)"
proof (induction ps arbitrary: acc)
  case Nil
  then show ?case by simp
next
  case (Cons p ps)
  obtain k v where p: "p = (k, v)" by (cases p)
  have d: "distinct (map fst (AList.update k v acc))" using Cons.prems by (simp add: distinct_update)
  have s: "set (map fst (AList.update k v acc)) = insert k (set (map fst acc))"
    using dom_update [of k v acc] by simp
  from Cons.IH [OF d] s p show ?case by auto
qed

lemma dict_of_pairs_distinct: "distinct (map fst (dict_of_pairs ps))"
  using foldl_update_keys [of "[]" ps] by (simp add: dict_of_pairs_def)

lemma dict_of_pairs_keys: "set (map fst (dict_of_pairs ps)) = set (map fst ps)"
  using foldl_update_keys [of "[]" ps] by (simp add: dict_of_pairs_def)

lemma foldl_update_fresh:
  "distinct (map fst acc @ map fst ps) \<Longrightarrow>
   foldl (\<lambda>d (k, v). AList.update k v d) acc ps = acc @ ps"
proof (induction ps arbitrary: acc)
  case Nil
  then show ?case by simp
next
  case (Cons p ps)
  obtain k v where p: "p = (k, v)" by (cases p)
  from Cons.prems p have fresh: "k \<notin> fst ` set acc" by auto
  have u: "AList.update k v acc = acc @ [(k, v)]"
    using fresh by (induction acc) auto
  from Cons.prems p have "distinct (map fst (acc @ [(k, v)]) @ map fst ps)" by auto
  from Cons.IH [OF this] u p show ?case by simp
qed

lemma dict_of_pairs_id: "distinct (map fst ps) \<Longrightarrow> dict_of_pairs ps = ps"
  using foldl_update_fresh [of "[]" ps] by (simp add: dict_of_pairs_def)

lemma normalize_one_id: "map_of (normalize_one v data) ''id'' = Some (PStr v)"
  by (auto simp: normalize_one_def Let_def finding_def split: pyval.splits option.splits)

lemma normalize_results_ids:
  "map (\<lambda>f. map_of f ''id'') (normalize_results raw) = map (\<lambda>kv. Some (PStr (fst kv))) raw"
  by (induction raw) (auto simp: normalize_results_def normalize_one_id)

lemma run_tool_async_key:
  "fst (run_tool_async imp v url) = Inr (k, r) \<Longrightarrow> k = v"
  by (auto simp: run_tool_async_def split: option.splits sum.splits prod.splits)

lemma completed_pairs:
  "errors_of imp url sel = [] \<Longrightarrow>
   [p. Inr p \<leftarrow> map (\<lambda>v. fst (run_tool_async imp v url)) sel] = map (\<lambda>v. (v, value_of imp url v)) sel"
proof (induction sel)
  case Nil
  then show ?case by simp
next
  case (Cons v sel)
  show ?case
  proof (cases "fst (run_tool_async imp v url)")
    case (Inl e)
    with Cons.prems show ?thesis by (simp add: errors_of_def)
  next
    case (Inr p)
    obtain k r where p: "p = (k, r)" by (cases p)
    with Inr have k: "k = v" using run_tool_async_key by blast
    from Cons.prems Inr have "errors_of imp url sel = []" by (simp add: errors_of_def)
    from Cons.IH [OF this] Inr p k show ?thesis by (simp add: value_of_def)
  qed
qed

lemma raw_results_of_eq:
  "raw_results_of imp pick url sel =
     dict_of_pairs (map (\<lambda>v. (v, if errors_of imp url sel = [] then value_of imp url v
                                  else error_result (''Tool run failed: '' @ exn_message (pick (errors_of imp url sel))))) sel)"
proof (cases "errors_of imp url sel")
  case Nil
  have "gather pick (map (\<lambda>v. fst (run_tool_async imp v url)) sel)
          = Inr (map (\<lambda>v. (v, value_of imp url v)) sel)"
    unfolding gather_def Nil [unfolded errors_of_def] completed_pairs [OF Nil] by simp
  then show ?thesis
    by (simp add: raw_results_of_def run_all_tools_def Nil)
next
  case (Cons e es)
  then show ?thesis
    by (simp add: raw_results_of_def run_all_tools_def gather_def errors_of_def)
qed

lemma raw_results_keys_distinct: "distinct (map fst (raw_results_of imp pick url sel))"
  by (simp add: raw_results_of_eq dict_of_pairs_distinct)

lemma raw_results_keys_set: "set (map fst (raw_results_of imp pick url sel)) = set sel"
proof -
  have "set (map fst (raw_results_of imp pick url sel))
        = set (map fst (map (\<lambda>v. (v, if errors_of imp url sel = [] then value_of imp url v
             else error_result (''Tool run failed: '' @ exn_message (pick (errors_of imp url sel))))) sel))"
    unfolding raw_results_of_eq by (rule dict_of_pairs_keys)
  also have "\<dots> = set sel" by (simp add: comp_def)
  finally show ?thesis .
qed

lemma raw_results_distinct_sel:
  "distinct sel \<Longrightarrow> raw_results_of imp pick url sel =
     map (\<lambda>v. (v, if errors_of imp url sel = [] then value_of imp url v
                   else error_result (''Tool run failed: '' @ exn_message (pick (errors_of imp url sel))))) sel"
  unfolding raw_results_of_eq by (rule dict_of_pairs_id) (simp add: comp_def)

lemma results_scan: "results (scan_url imp pick url vulns) =
   normalize_results (raw_results_of imp pick url (selected_vulns vulns))"
  by (simp add: scan_url_def Let_def)

lemma filter_key_distinct:
  "distinct (map fst kvs) \<Longrightarrow> k \<in> set (map fst kvs) \<Longrightarrow> length (filter (\<lambda>kv. fst kv = k) kvs) = 1"
proof (induction kvs)
  case Nil
  then show ?case by simp
next
  case (Cons a kvs)
  show ?case
  proof (cases "fst a = k")
    case True
    with Cons.prems have "k \<notin> fst ` set kvs" by simp
    then have "\<forall>kv \<in> set kvs. fst kv \<noteq> k" by force
    then have "filter (\<lambda>kv. fst kv = k) kvs = []"
      by (simp add: filter_empty_conv)
    with True show ?thesis by simp
  next
    case False
    with Cons show ?thesis by auto
  qed
qed

lemma findings_for_normalize:
  "findings_for (normalize_results raw) v = normalize_results (filter (\<lambda>kv. fst kv = v) raw)"
  by (induction raw) (auto simp: findings_for_def normalize_results_def normalize_one_id)

lemma length_normalize_results: "length (normalize_results raw) = length raw"
  by (simp add: normalize_results_def)

lemma length_results: "length (results (scan_url imp pick url vulns)) = card (set (selected_vulns vulns))"
proof -
  let ?raw = "raw_results_of imp pick url (selected_vulns vulns)"
  have "length (results (scan_url imp pick url vulns)) = length (map fst ?raw)"
    by (simp add: results_scan length_normalize_results)
  also have "\<dots> = card (set (map fst ?raw))"
    using raw_results_keys_distinct [of imp pick url "selected_vulns vulns"]
    by (simp only: distinct_card)
  also have "\<dots> = card (set (selected_vulns vulns))"
    by (simp only: raw_results_keys_set)
  finally show ?thesis .
qed

lemma one_finding_per_id:
  assumes "v \<in> set (selected_vulns vulns)"
  shows "length (findings_for (results (scan_url imp pick url vulns)) v) = 1"
proof -
  let ?raw = "raw_results_of imp pick url (selected_vulns vulns)"
  have "v \<in> set (map fst ?raw)" using assms by (simp only: raw_results_keys_set)
  then have "length (filter (\<lambda>kv. fst kv = v) ?raw) = 1"
    by (rule filter_key_distinct [OF raw_results_keys_distinct])
  then show ?thesis
    by (simp add: results_scan findings_for_normalize length_normalize_results)
qed

text \<open>
  C10. Whatever the requested list repeats, the report holds one finding per distinct
  probe id: the number of findings is the number of distinct selected ids, and each
  selected id has exactly one finding. The selected ids are the requested ones unless the
  request names none.
\<close>

theorem duplicate_requests_collapse:
  "length (results (scan_url imp pick url vulns)) = card (set (selected_vulns vulns))
   \<and> (\<forall>v \<in> set (selected_vulns vulns). length (findings_for (results (scan_url imp pick url vulns)) v) = 1)
   \<and> (vulns \<noteq> [] \<longrightarrow> selected_vulns vulns = vulns)"
  by (simp add: length_results one_finding_per_id selected_vulns_def)

theorem duplicate_requests_collapse_witness:
  "length (results (scan_url (\<lambda>path. Inl (OtherException ''No module'')) hd ''http://t.example''
             [''xss'', ''cors'', ''xss''])) = 2
   \<and> length (findings_for (results (scan_url (\<lambda>path. Inl (OtherException ''No module'')) hd
             ''http://t.example'' [''xss'', ''cors'', ''xss''])) ''xss'') = 1"
proof -
  let ?imp = "\<lambda>path :: string. (Inl (OtherException ''No module'') :: exn + py_module)"
  let ?vs = "[''xss'', ''cors'', ''xss'']"
  note t = duplicate_requests_collapse [of ?imp hd "''http://t.example''" ?vs]
  have n: "?vs \<noteq> []" by simp
  have c: "card (set ?vs) = 2" by code_simp
  from t n have s: "selected_vulns ?vs = ?vs" by blast
  from t have "length (results (scan_url ?imp hd ''http://t.example'' ?vs)) = card (set (selected_vulns ?vs))"
    by blast
  then have 1: "length (results (scan_url ?imp hd ''http://t.example'' ?vs)) = 2"
    by (simp only: s c)
  from t have "\<forall>v \<in> set (selected_vulns ?vs).
      length (findings_for (results (scan_url ?imp hd ''http://t.example'' ?vs)) v) = 1"
    by blast
  then have 2: "length (findings_for (results (scan_url ?imp hd ''http://t.example'' ?vs)) ''xss'') = 1"
    unfolding s by simp
  from 1 2 show ?thesis by simp
qed

lemma set_update_subset: "set (AList.update k v al) \<subseteq> insert (k, v) (set al)"
  by (induction al) auto

lemma foldl_update_subset:
  "set (foldl (\<lambda>d (k, v). AList.update k v d) acc ps) \<subseteq> set acc \<union> set ps"
proof (induction ps arbitrary: acc)
  case Nil
  then show ?case by simp
next
  case (Cons p ps)
  obtain k v where p: "p = (k, v)" by (cases p)
  have "set (foldl (\<lambda>d (k, v). AList.update k v d) (AList.update k v acc) ps)
          \<subseteq> set (AList.update k v acc) \<union> set ps" by (rule Cons.IH)
  with set_update_subset [of k v acc] p show ?case by auto
qed

lemma dict_of_pairs_subset: "set (dict_of_pairs ps) \<subseteq> set ps"
  using foldl_update_subset [of "[]" ps] by (simp add: dict_of_pairs_def)

lemma always_raises_propagates:
  assumes "always_raises c url"
  shows "\<exists>e. fst (call_tool_callable c url) = Inl e"
  using assms
  by (auto simp: always_raises_def call_tool_callable_unfold split: sum.splits)

lemma run_tool_async_raises:
  assumes "map_of TOOLS v = Some path" and "imp path = Inr m"
    and "first_callable m [''run'', ''scan'', ''main'', ''check''] = Some c"
    and "always_raises c url"
  shows "\<exists>e. fst (run_tool_async imp v url) = Inl e"
proof -
  from always_raises_propagates [OF assms(4)] obtain e where "fst (call_tool_callable c url) = Inl e" ..
  then obtain calls where "call_tool_callable c url = (Inl e, calls)"
    by (cases "call_tool_callable c url") auto
  with assms(1-3) have "fst (run_tool_async imp v url) = Inl e"
    by (simp add: run_tool_async_def)
  then show ?thesis ..
qed

lemma errors_of_nonempty:
  "v \<in> set sel \<Longrightarrow> fst (run_tool_async imp v url) = Inl e \<Longrightarrow> errors_of imp url sel \<noteq> []"
  by (induction sel) (auto simp: errors_of_def)

lemma run_all_tools_raises:
  "errors_of imp url sel \<noteq> [] \<Longrightarrow> run_all_tools imp pick url sel = Inl (pick (errors_of imp url sel))"
  by (cases "errors_of imp url sel") (simp_all add: run_all_tools_def gather_def errors_of_def)

lemma normalize_error_result:
  "normalize_one k (error_result msg) =
     finding k (error_result msg) (PStr (derived_name k)) (PStr ''Unknown'') (PStr msg)
       (PStr ''Check backend service'') (default_references (derived_name k))"
  unfolding error_result_def
  by (subst normalize_one_failure [where err = "PStr msg"]) (simp_all add: dict_get_def)

lemma status_error_result: "status_of (error_result msg) = ''error''"
  unfolding error_result_def by (rule status_of_failure [where v = "PStr msg"]) simp

lemma batch_failure_findings:
  assumes "errors_of imp url sel \<noteq> []" and "f \<in> set (normalize_results (raw_results_of imp pick url sel))"
  shows "\<exists>k \<in> set sel. f = normalize_one k
           (error_result (''Tool run failed: '' @ exn_message (pick (errors_of imp url sel))))"
proof -
  let ?e = "error_result (''Tool run failed: '' @ exn_message (pick (errors_of imp url sel)))"
  from assms(2) obtain k d where kd: "(k, d) \<in> set (raw_results_of imp pick url sel)"
    and f: "f = normalize_one k d"
    by (auto simp: normalize_results_def)
  from kd assms(1) have "(k, d) \<in> set (dict_of_pairs (map (\<lambda>v. (v, ?e)) sel))"
    by (simp add: raw_results_of_eq)
  then have "(k, d) \<in> set (map (\<lambda>v. (v, ?e)) sel)" using dict_of_pairs_subset by blast
  then have "k \<in> set sel" and "d = ?e" by auto
  with f show ?thesis by blast
qed

text \<open>
  C1, as the code has it. The invoker catches only the \<^verbatim>\<open>TypeError\<close> of the
  calling-convention fallback: when a requested, registered capability raises on every
  call, the exception leaves the invoker and the dispatcher, and the coordinator's
  \<^verbatim>\<open>except Exception\<close> replaces the raw result of every requested probe by the
  payload "Tool run failed". The report still has exactly one finding for the faulting
  probe, and every finding of the report, the faulting probe's and its siblings' alike,
  has status "error", severity "Unknown" and that payload as details.
\<close>

theorem faulting_probe_fails_whole_batch:
  assumes "v \<in> set (selected_vulns vulns)"
    and "map_of TOOLS v = Some path" and "imp path = Inr m"
    and "first_callable m [''run'', ''scan'', ''main'', ''check''] = Some c"
    and "always_raises c url"
  shows "(\<exists>e. fst (call_tool_callable c url) = Inl e)
    \<and> errors_of imp url (selected_vulns vulns) \<noteq> []
    \<and> run_all_tools imp pick url (selected_vulns vulns)
         = Inl (pick (errors_of imp url (selected_vulns vulns)))
    \<and> length (findings_for (results (scan_url imp pick url vulns)) v) = 1
    \<and> (\<forall>f \<in> set (results (scan_url imp pick url vulns)).
          map_of f ''status'' = Some (PStr ''error'')
        \<and> map_of f ''severity'' = Some (PStr ''Unknown'')
        \<and> map_of f ''details'' = Some (error_result
             (''Tool run failed: '' @ exn_message (pick (errors_of imp url (selected_vulns vulns))))))"
proof -
  let ?sel = "selected_vulns vulns"
  let ?e = "error_result (''Tool run failed: '' @ exn_message (pick (errors_of imp url ?sel)))"
  from run_tool_async_raises [where imp = imp, OF assms(2-5)] obtain e where "fst (run_tool_async imp v url) = Inl e" ..
  with assms(1) have ne: "errors_of imp url ?sel \<noteq> []" by (rule errors_of_nonempty)
  have 1: "\<exists>e. fst (call_tool_callable c url) = Inl e" using assms(5) by (rule always_raises_propagates)
  have 3: "run_all_tools imp pick url ?sel = Inl (pick (errors_of imp url ?sel))"
    using ne by (rule run_all_tools_raises)
  have 4: "length (findings_for (results (scan_url imp pick url vulns)) v) = 1"
    using assms(1) by (rule one_finding_per_id)
  have 5: "map_of f ''status'' = Some (PStr ''error'')
        \<and> map_of f ''severity'' = Some (PStr ''Unknown'')
        \<and> map_of f ''details'' = Some ?e"
    if "f \<in> set (results (scan_url imp pick url vulns))" for f
  proof -
    from that have "f \<in> set (normalize_results (raw_results_of imp pick url ?sel))"
      by (simp add: results_scan)
    from batch_failure_findings [OF ne this] obtain k where "f = normalize_one k ?e" by blast
    then show ?thesis
      by (simp add: normalize_error_result field_simps_finding status_error_result)
  qed
  from 1 ne 3 4 5 show ?thesis by blast
qed

theorem faulting_probe_fails_whole_batch_witness:
  "always_raises failing_probe ''http://t.example''
   \<and> length (findings_for (results (scan_url example_importer hd ''http://t.example'' [''xss'', ''cors''])) ''cors'') = 1
   \<and> list_all (\<lambda>f. map_of f ''status'' = Some (PStr ''error'') \<and> map_of f ''severity'' = Some (PStr ''Unknown''))
         (results (scan_url example_importer hd ''http://t.example'' [''xss'', ''cors'']))"
proof -
  let ?m = "Module (\<lambda>n. if n = ''run'' then Some (Callable failing_probe) else None) None"
  have 1: "''cors'' \<in> set (selected_vulns [''xss'', ''cors''])" by (simp add: selected_vulns_def)
  have 2: "map_of TOOLS ''cors'' = Some ''Tools.CORS_detection''" by (simp add: TOOLS_def)
  have 3: "example_importer ''Tools.CORS_detection'' = Inr ?m" by (simp add: example_importer_def)
  have 4: "first_callable ?m [''run'', ''scan'', ''main'', ''check''] = Some failing_probe" by simp
  have 5: "always_raises failing_probe ''http://t.example''"
    by (simp add: always_raises_def failing_probe_def)
  note t = faulting_probe_fails_whole_batch [where imp = example_importer and pick = hd, OF 1 2 3 4 5]
  note one = t [THEN conjunct2, THEN conjunct2, THEN conjunct2, THEN conjunct1]
  note all = t [THEN conjunct2, THEN conjunct2, THEN conjunct2, THEN conjunct2]
  have "list_all (\<lambda>f. map_of f ''status'' = Some (PStr ''error'') \<and> map_of f ''severity'' = Some (PStr ''Unknown''))
         (results (scan_url example_importer hd ''http://t.example'' [''xss'', ''cors'']))"
    unfolding list_all_iff using all by fast
  with 5 one show ?thesis by (intro conjI)
qed

text \<open>
  C1 as stated fails: requested together with a probe that raises, the XSS probe is
  reported with status "error" and severity "Unknown"; requested alone, the same probe is
  reported with status "ok" and severity "High". The exception left the invoker.
\<close>

theorem faulting_probe_counterexample: "map (\<lambda>f. (map_of f ''id'', map_of f ''status'', map_of f ''severity''))
         (results (scan_url example_importer hd ''http://t.example'' [''xss'', ''cors'']))
     = [(Some (PStr ''xss''), Some (PStr ''error''), Some (PStr ''Unknown'')),
        (Some (PStr ''cors''), Some (PStr ''error''), Some (PStr ''Unknown''))]
   \<and> map (\<lambda>f. (map_of f ''id'', map_of f ''status'', map_of f ''severity''))
         (results (scan_url example_importer hd ''http://t.example'' [''xss'']))
     = [(Some (PStr ''xss''), Some (PStr ''ok''), Some (PStr ''High''))]
   \<and> fst (call_tool_callable failing_probe ''http://t.example'') = Inl (OtherException ''connection reset'')"
  by code_simp


lemma raw_results_distinct_for:
  "distinct sel \<Longrightarrow> raw_results_of imp pick url sel = map (\<lambda>v. (v, raw_result_for imp pick url sel v)) sel"
  by (simp add: raw_results_distinct_sel raw_result_for_def)

lemma filter_eq_distinct: "distinct sel \<Longrightarrow> w \<in> set sel \<Longrightarrow> filter (\<lambda>u. u = w) sel = [w]"
proof (induction sel)
  case Nil
  then show ?case by simp
next
  case (Cons a sel)
  show ?case
  proof (cases "a = w")
    case True
    with Cons.prems have "\<forall>u \<in> set sel. u \<noteq> w" by auto
    then have "filter (\<lambda>u. u = w) sel = []" by (simp add: filter_empty_conv)
    with True show ?thesis by simp
  next
    case False
    with Cons show ?thesis by auto
  qed
qed

lemma findings_for_distinct:
  assumes "distinct sel" and "w \<in> set sel"
  shows "findings_for (normalize_results (raw_results_of imp pick url sel)) w
           = [normalize_one w (raw_result_for imp pick url sel w)]"
proof -
  have "filter (\<lambda>kv. fst kv = w) (map (\<lambda>v. (v, raw_result_for imp pick url sel v)) sel)
          = map (\<lambda>v. (v, raw_result_for imp pick url sel v)) (filter (\<lambda>u. u = w) sel)"
    by (simp add: filter_map comp_def)
  also have "\<dots> = [(w, raw_result_for imp pick url sel w)]"
    using filter_eq_distinct [OF assms] by simp
  finally have flt: "filter (\<lambda>kv. fst kv = w) (raw_results_of imp pick url sel)
          = [(w, raw_result_for imp pick url sel w)]"
    by (simp only: raw_results_distinct_for [OF assms(1)])
  have "findings_for (normalize_results (raw_results_of imp pick url sel)) w
          = normalize_results (filter (\<lambda>kv. fst kv = w) (raw_results_of imp pick url sel))"
    by (rule findings_for_normalize)
  also have "\<dots> = [normalize_one w (raw_result_for imp pick url sel w)]"
    unfolding flt by (simp add: normalize_results_def)
  finally show ?thesis .
qed

lemma unregistered_task:
  "map_of TOOLS v = None \<Longrightarrow>
   run_tool_async imp v url
     = (Inr (v, error_result (''Tool '' @ [CHR 0x27] @ v @ [CHR 0x27] @ '' not found'')), [])"
  by (simp add: run_tool_async_def)

lemma errors_of_removeAll:
  "fst (run_tool_async imp v url) = Inr p \<Longrightarrow> errors_of imp url (removeAll v sel) = errors_of imp url sel"
  by (induction sel) (auto simp: errors_of_def)

lemma raw_result_for_removeAll:
  "fst (run_tool_async imp v url) = Inr p \<Longrightarrow>
   raw_result_for imp pick url (removeAll v sel) w = raw_result_for imp pick url sel w"
  by (simp add: raw_result_for_def errors_of_removeAll)

lemma raw_result_unregistered_is_error:
  assumes "map_of TOOLS v = None"
  shows "\<exists>msg. raw_result_for imp pick url sel v = error_result msg"
  using unregistered_task [OF assms, of imp url]
  by (auto simp: raw_result_for_def value_of_def)

text \<open>
  C2, as the code has it. For a request of distinct ids the findings carry the selected
  ids, one each, in request order; the selected ids are the requested ones, or the twelve
  registered probes when the request names none. An id that is not in the registry is
  answered without any call to a capability, its finding has status "error", and the
  finding of every other requested probe is what it is without that id in the request.
  The finding carries the "not found" payload when no task of the fan-out raised, and
  the payload "Tool run failed" of the coordinator's handler when one raised.
\<close>

theorem every_requested_probe_reported:
  assumes "distinct vulns"
  shows "map (\<lambda>f. map_of f ''id'') (results (scan_url imp pick url vulns))
           = map (\<lambda>v. Some (PStr v)) (selected_vulns vulns)
   \<and> selected_vulns vulns
       = (if vulns = []
          then [''clickjacking'', ''cors'', ''directory_listing'', ''http_headers'', ''insecure_cookies'',
                ''open_redirect'', ''outdated_software'', ''info_disclosure'', ''ssl_tls'', ''xss'',
                ''sql_injection'', ''path_traversal'']
          else vulns)
   \<and> (\<forall>v \<in> set vulns. map_of TOOLS v = None \<longrightarrow>
          run_tool_async imp v url
            = (Inr (v, error_result (''Tool '' @ [CHR 0x27] @ v @ [CHR 0x27] @ '' not found'')), [])
        \<and> (\<forall>f \<in> set (findings_for (results (scan_url imp pick url vulns)) v).
              map_of f ''status'' = Some (PStr ''error''))
        \<and> (errors_of imp url vulns = [] \<longrightarrow>
              findings_for (results (scan_url imp pick url vulns)) v
                = [normalize_one v (error_result (''Tool '' @ [CHR 0x27] @ v @ [CHR 0x27] @ '' not found''))])
        \<and> (errors_of imp url vulns \<noteq> [] \<longrightarrow>
              findings_for (results (scan_url imp pick url vulns)) v
                = [normalize_one v (error_result
                     (''Tool run failed: '' @ exn_message (pick (errors_of imp url vulns))))])
        \<and> (\<forall>w \<in> set vulns. w \<noteq> v \<longrightarrow>
              findings_for (results (scan_url imp pick url vulns)) w
                = findings_for (results (scan_url imp pick url (removeAll v vulns))) w))"
proof (intro conjI ballI impI)
  have "distinct (selected_vulns vulns)" using assms by (simp add: selected_vulns_def TOOLS_def)
  then show "map (\<lambda>f. map_of f ''id'') (results (scan_url imp pick url vulns))
           = map (\<lambda>v. Some (PStr v)) (selected_vulns vulns)"
    by (simp add: results_scan normalize_results_ids raw_results_distinct_for comp_def)
next
  show "selected_vulns vulns
       = (if vulns = []
          then [''clickjacking'', ''cors'', ''directory_listing'', ''http_headers'', ''insecure_cookies'',
                ''open_redirect'', ''outdated_software'', ''info_disclosure'', ''ssl_tls'', ''xss'',
                ''sql_injection'', ''path_traversal'']
          else vulns)"
    by (simp add: selected_vulns_def TOOLS_def)
next
  fix v assume "v \<in> set vulns" and "map_of TOOLS v = None"
  then show "run_tool_async imp v url
            = (Inr (v, error_result (''Tool '' @ [CHR 0x27] @ v @ [CHR 0x27] @ '' not found'')), [])"
    by (simp add: unregistered_task)
next
  fix v f assume v: "v \<in> set vulns" and u: "map_of TOOLS v = None"
    and f: "f \<in> set (findings_for (results (scan_url imp pick url vulns)) v)"
  have sel: "selected_vulns vulns = vulns" using v by (auto simp: selected_vulns_def)
  from raw_result_unregistered_is_error [OF u] obtain msg where
    "raw_result_for imp pick url vulns v = error_result msg" by blast
  with f have "f = normalize_one v (error_result msg)"
    by (simp add: results_scan sel findings_for_distinct [OF assms v])
  then show "map_of f ''status'' = Some (PStr ''error'')"
    by (simp add: normalize_error_result field_simps_finding status_error_result)
next
  fix v assume v: "v \<in> set vulns" and u: "map_of TOOLS v = None" and ne: "errors_of imp url vulns = []"
  have sel: "selected_vulns vulns = vulns" using v by (auto simp: selected_vulns_def)
  have "raw_result_for imp pick url vulns v
          = error_result (''Tool '' @ [CHR 0x27] @ v @ [CHR 0x27] @ '' not found'')"
    using unregistered_task [OF u, of imp url] ne by (simp add: raw_result_for_def value_of_def)
  then show "findings_for (results (scan_url imp pick url vulns)) v
                = [normalize_one v (error_result (''Tool '' @ [CHR 0x27] @ v @ [CHR 0x27] @ '' not found''))]"
    by (simp add: results_scan sel findings_for_distinct [OF assms v])
next
  fix v assume v: "v \<in> set vulns" and u: "map_of TOOLS v = None" and ne: "errors_of imp url vulns \<noteq> []"
  have sel: "selected_vulns vulns = vulns" using v by (auto simp: selected_vulns_def)
  have "raw_result_for imp pick url vulns v
          = error_result (''Tool run failed: '' @ exn_message (pick (errors_of imp url vulns)))"
    using ne by (simp add: raw_result_for_def)
  then show "findings_for (results (scan_url imp pick url vulns)) v
                = [normalize_one v (error_result
                     (''Tool run failed: '' @ exn_message (pick (errors_of imp url vulns))))]"
    by (simp add: results_scan sel findings_for_distinct [OF assms v])
next
  fix v w assume v: "v \<in> set vulns" and u: "map_of TOOLS v = None" and w: "w \<in> set vulns" and wv: "w \<noteq> v"
  have sel: "selected_vulns vulns = vulns" using v by (auto simp: selected_vulns_def)
  from w wv have w': "w \<in> set (removeAll v vulns)" by simp
  then have "removeAll v vulns \<noteq> []" by (metis empty_iff empty_set)
  then have sel': "selected_vulns (removeAll v vulns) = removeAll v vulns" by (simp add: selected_vulns_def)
  have d': "distinct (removeAll v vulns)" using assms by (simp add: distinct_removeAll)
  have t: "fst (run_tool_async imp v url)
             = Inr (v, error_result (''Tool '' @ [CHR 0x27] @ v @ [CHR 0x27] @ '' not found''))"
    using unregistered_task [OF u, of imp url] by simp
  show "findings_for (results (scan_url imp pick url vulns)) w
                = findings_for (results (scan_url imp pick url (removeAll v vulns))) w"
    by (simp add: results_scan sel sel' findings_for_distinct [OF assms w]
                  findings_for_distinct [OF d' w'] raw_result_for_removeAll [OF t])
qed

theorem every_requested_probe_reported_witness:
  "distinct [''wordpress'', ''xss''] \<and> [''wordpress'', ''xss''] \<noteq> []
   \<and> map_of TOOLS ''wordpress'' = None
   \<and> errors_of example_importer ''http://t.example'' [''wordpress'', ''xss''] = []
   \<and> map (\<lambda>f. map_of f ''id'') (results (scan_url example_importer hd ''http://t.example'' [''wordpress'', ''xss'']))
       = [Some (PStr ''wordpress''), Some (PStr ''xss'')]
   \<and> findings_for (results (scan_url example_importer hd ''http://t.example'' [''wordpress'', ''xss''])) ''wordpress''
       = [normalize_one ''wordpress''
            (error_result (''Tool '' @ [CHR 0x27] @ ''wordpress'' @ [CHR 0x27] @ '' not found''))]
   \<and> findings_for (results (scan_url example_importer hd ''http://t.example'' [''wordpress'', ''xss''])) ''xss''
       = findings_for (results (scan_url example_importer hd ''http://t.example'' (removeAll ''wordpress'' [''wordpress'', ''xss'']))) ''xss''"
proof -
  let ?vs = "[''wordpress'', ''xss'']"
  have d: "distinct ?vs" by simp
  have n: "?vs \<noteq> []" by simp
  have u: "map_of TOOLS ''wordpress'' = None" by (simp add: TOOLS_def)
  have e: "errors_of example_importer ''http://t.example'' ?vs = []" by code_simp
  have m: "''wordpress'' \<in> set ?vs" and x: "''xss'' \<in> set ?vs" and ne: "''xss'' \<noteq> ''wordpress''"
    by simp_all
  note t = every_requested_probe_reported [OF d, of example_importer hd "''http://t.example''"]
  note tv = t [THEN conjunct2, THEN conjunct2, THEN bspec, OF m, THEN mp, OF u]
  have ids: "map (\<lambda>f. map_of f ''id'') (results (scan_url example_importer hd ''http://t.example'' ?vs))
       = [Some (PStr ''wordpress''), Some (PStr ''xss'')]"
    using t [THEN conjunct1] by (simp add: selected_vulns_def)
  note 2 = tv [THEN conjunct2, THEN conjunct2, THEN conjunct1, THEN mp, OF e]
  note 3 = tv [THEN conjunct2, THEN conjunct2, THEN conjunct2, THEN conjunct2, THEN bspec, OF x, THEN mp, OF ne]
  show ?thesis
    apply (intro conjI)
          apply (rule d)
         apply (rule n)
        apply (rule u)
       apply (rule e)
      apply (rule ids)
     apply (rule 2)
    apply (rule 3)
    done
qed

text \<open>
  C2 as stated fails in one part: requested together with a probe that raises, an id that
  is not in the registry is reported with the payload "Tool run failed", which has no
  "not found" in it.
\<close>

theorem unregistered_probe_counterexample: "map (\<lambda>f. (map_of f ''id'', map_of f ''status'', map_of f ''details''))
     (results (scan_url example_importer hd ''http://t.example'' [''wordpress'', ''cors'']))
   = [(Some (PStr ''wordpress''), Some (PStr ''error''),
       Some (PDict [(''error'', PStr ''Tool run failed: connection reset'')])),
      (Some (PStr ''cors''), Some (PStr ''error''),
       Some (PDict [(''error'', PStr ''Tool run failed: connection reset'')]))]
   \<and> \<not> str_contains ''not found'' (py_lower (py_str (PDict [(''error'', PStr ''Tool run failed: connection reset'')])))"
  by code_simp

end
